theory Spec2Isabelle
  imports Main "HOL-Library.Word" "HOL-Library.AList"
begin

section \<open>Go values\<close>

text \<open>
  Go's \<open>int\<close> is modelled as \<open>int\<close>. The model is exact as long as the numbers the engine
  computes stay below \<open>2 ^ 53\<close> in magnitude, where neither the 64-bit arithmetic wraps nor
  the conversion to \<open>float64\<close> in \<open>calculatePoints\<close> rounds; for a time spent or a time limit
  near the ends of the 64-bit range the code wraps or rounds and the model does not follow
  it. Go's \<open>uint\<close> row identifiers are \<open>nat\<close>; no arithmetic is done on them.

  Go's integer division truncates towards zero and panics on a zero divisor; HOL's
  \<open>div\<close> rounds down and returns 0. \<open>go_quot\<close> is the truncating quotient for a nonzero
  divisor; the callers check the divisor first.
\<close>

definition go_quot :: "int \<Rightarrow> int \<Rightarrow> int" where
  "go_quot a b = (if (a < 0) = (b < 0) then \<bar>a\<bar> div \<bar>b\<bar> else - (\<bar>a\<bar> div \<bar>b\<bar>))"

datatype go_error =
    QuizNotFound
  | GameNotFound
  | UnauthorizedToStart
  | UnauthorizedToControl
  | QuestionIndexOutOfRange
  | GameStateNotFoundInRedis
  | GameStateNotFound
  | InvalidQuestionIndex
  | CannotJoin string
  | PlayerNameTaken
  | GameNotActive
  | AnswerAlreadySubmitted
  | QuestionNotFound
  | OptionNotFound
  | DuplicateKey
  | PanicIndexOutOfRange
  | PanicDivideByZero

section \<open>Strings\<close>

text \<open>
  \<open>strings.ToLower\<close> and SQL's \<open>LOWER\<close> on the ASCII letters (session codes are hexadecimal
  digits); \<open>strings.EqualFold\<close> as equality of the lower-cased strings.
\<close>

definition lower_char :: "char \<Rightarrow> char" where
  "lower_char c =
     (case map_of (zip ''ABCDEFGHIJKLMNOPQRSTUVWXYZ'' ''abcdefghijklmnopqrstuvwxyz'') c of
        None \<Rightarrow> c
      | Some l \<Rightarrow> l)"

definition ToLower :: "string \<Rightarrow> string" where
  "ToLower s = map lower_char s"

definition EqualFold :: "string \<Rightarrow> string \<Rightarrow> bool" where
  "EqualFold a b = (ToLower a = ToLower b)"

text \<open>\<open>hex.EncodeToString\<close>: two lower-case hexadecimal digits per byte.\<close>

definition hexdigit :: "nat \<Rightarrow> char" where
  "hexdigit n = ''0123456789abcdef'' ! (n mod 16)"

definition EncodeToString :: "8 word list \<Rightarrow> string" where
  "EncodeToString bs = concat (map (\<lambda>b. [hexdigit (unat b div 16), hexdigit (unat b mod 16)]) bs)"

section \<open>Data model\<close>

text \<open>
  The rows of the durable store (package \<open>models\<close>), without the columns that no function of
  the engine reads (titles, timestamps, soft-delete marks). The store keeps one list per
  table, in primary-key order; a \<open>Preload\<close> is the filter on the foreign key.
\<close>

record Quiz =
  Quiz_ID :: nat
  Quiz_UserID :: nat

record Question =
  Question_ID :: nat
  Question_QuizID :: nat
  Question_Text :: string
  Question_TimeLimit :: int
  Question_Order :: int

record OptionRow =
  Option_ID :: nat
  Option_QuestionID :: nat
  Option_Text :: string
  Option_IsCorrect :: bool
  Option_Order :: int

record Game =
  Game_ID :: nat
  Game_QuizID :: nat
  Game_Pin :: string
  Game_Status :: string

record Player =
  Player_ID :: nat
  Player_GameID :: nat
  Player_Name :: string
  Player_Score :: int

record GameAnswer =
  Answer_ID :: nat
  Answer_GameID :: nat
  Answer_PlayerID :: nat
  Answer_QuestionID :: nat
  Answer_OptionID :: nat
  Answer_IsCorrect :: bool
  Answer_TimeSpent :: int
  Answer_Points :: int

text \<open>The live snapshot kept in Redis (\<open>GameState\<close> and its parts in \<open>game_service.go\<close>).\<close>

record GameOption =
  GameOption_ID :: nat
  GameOption_Text :: string

record GameQuestion =
  GameQuestion_ID :: nat
  GameQuestion_Text :: string
  GameQuestion_TimeLimit :: int
  GameQuestion_Options :: "GameOption list"
  GameQuestion_TimeLeft :: int

record GamePlayer =
  GamePlayer_ID :: nat
  GamePlayer_Name :: string
  GamePlayer_Score :: int

record GameState =
  GameState_GameID :: nat
  GameState_QuizID :: nat
  GameState_Pin :: string
  GameState_Status :: string
  CurrentQuestion :: "GameQuestion option"
  CurrentQuestionIndex :: int
  Players :: "GamePlayer list"
  Leaderboard :: "GamePlayer list"
  TotalQuestions :: int

text \<open>The requests.\<close>

record JoinGameRequest =
  Join_Pin :: string
  Join_Name :: string

record SubmitAnswerRequest =
  Submit_PlayerID :: nat
  Submit_QuestionID :: nat
  Submit_OptionID :: nat
  Submit_TimeSpent :: int

text \<open>
  The messages the hub sends, one constructor per payload of the source:
  \<open>question_start\<close> (question index; id, text, time limit and options of the question;
  total), \<open>timer_update\<close> (question index, time left), \<open>question_end\<close> (question index,
  the question with its options, the correct option, the answers, total), \<open>game_end\<close> of
  \<open>NextQuestion\<close> (message, final leaderboard, total), \<open>game_end\<close> of the hub (message,
  reason), \<open>score_update\<close> (players, player id, points earned, answer submitted).
\<close>

record AnswerResult =
  Result_player_id :: nat
  Result_player_name :: string
  Result_option_id :: nat
  Result_is_correct :: bool
  Result_points :: int
  Result_time_spent :: int

datatype Payload =
    QuestionStartPayload int nat string int "GameOption list" int
  | TimerUpdatePayload int int
  | QuestionEndPayload int Question "OptionRow list" "OptionRow option" "AnswerResult list" int
  | GameEndPayload string "GamePlayer list" int
  | CreatorLeftPayload string string
  | ScoreUpdatePayload "Player list" nat int bool

record Message =
  Message_Type :: string
  Message_Payload :: Payload

text \<open>
  The hub (\<open>Hub\<close>, \<open>Client\<close>): a client is known by its pointer, here a number; its \<open>send\<close>
  channel holds at most 256 messages. \<open>sync.RWMutex\<close> is not reentrant: a goroutine that
  holds the write lock and asks for the read lock waits for ever. Every operation below
  is one step that takes and gives back the lock, so between operations the mutex is
  \<open>Unlocked\<close>, and inside a step \<open>WriteLocked\<close> says that the running goroutine holds it.
\<close>

record Client =
  Client_ptr :: nat
  Client_gamePin :: string
  Client_playerID :: nat
  Client_playerName :: string
  Client_send :: "Message list"

datatype RWMutex = Unlocked | WriteLocked

record Hub =
  clients :: "Client list"
  mutex :: RWMutex

text \<open>A question timer goroutine that \<open>StartQuestion\<close> has spawned and that has not run yet.\<close>

record Timer =
  Timer_gamePin :: string
  Timer_questionIndex :: int
  Timer_timeLimit :: int

text \<open>
  The state the engine works on: the tables, the Redis keys (by normalized code; the
  expiry of a key is a step of the environment that removes it), the hub, the spawned
  timers, and \<open>trace\<close>, the broadcasts made so far, which no function reads.
\<close>

record World =
  quizzes :: "Quiz list"
  questions :: "Question list"
  options :: "OptionRow list"
  games :: "Game list"
  players :: "Player list"
  answers :: "GameAnswer list"
  redis :: "(string \<times> GameState) list"
  hub :: Hub
  timers :: "Timer list"
  trace :: "(string \<times> Message) list"

section \<open>Store access\<close>

text \<open>
  A query is a function of the tables: \<open>First\<close> fails exactly when no row matches,
  \<open>Create\<close> fails exactly on a violated unique index (\<open>Game.Pin\<close> carries one), and the
  Redis calls succeed; failures of the connection are not modelled.
\<close>

definition nextID :: "nat list \<Rightarrow> nat" where
  "nextID ids = Suc (fold max ids 0)"

definition findGame :: "string \<Rightarrow> World \<Rightarrow> Game option" where
  "findGame normalizedPin w = find (\<lambda>g. ToLower (Game_Pin g) = normalizedPin) (games w)"

definition gameQuestions :: "Game \<Rightarrow> World \<Rightarrow> Question list" where
  "gameQuestions game w =
     (case find (\<lambda>z. Quiz_ID z = Game_QuizID game) (quizzes w) of
        None \<Rightarrow> []
      | Some quiz \<Rightarrow> filter (\<lambda>q. Question_QuizID q = Quiz_ID quiz) (questions w))"

definition questionOptions :: "Question \<Rightarrow> World \<Rightarrow> OptionRow list" where
  "questionOptions question w = filter (\<lambda>opt. Option_QuestionID opt = Question_ID question) (options w)"

definition gamePlayers :: "nat \<Rightarrow> World \<Rightarrow> Player list" where
  "gamePlayers gameID w = filter (\<lambda>p. Player_GameID p = gameID) (players w)"

definition toGamePlayer :: "Player \<Rightarrow> GamePlayer" where
  "toGamePlayer player =
     \<lparr>GamePlayer_ID = Player_ID player, GamePlayer_Name = Player_Name player,
      GamePlayer_Score = Player_Score player\<rparr>"

definition setGameStatus :: "nat \<Rightarrow> string \<Rightarrow> World \<Rightarrow> World" where
  "setGameStatus gameID status w =
     w\<lparr>games := map (\<lambda>g. if Game_ID g = gameID then g\<lparr>Game_Status := status\<rparr> else g) (games w)\<rparr>"

text \<open>The \<open>UPDATE\<close> of \<open>SubmitAnswer\<close>: \<open>score + points\<close> for the players with the given id.\<close>

definition addPoints :: "nat \<Rightarrow> int \<Rightarrow> Player list \<Rightarrow> Player list" where
  "addPoints playerID points ps =
     map (\<lambda>p. if Player_ID p = playerID then p\<lparr>Player_Score := Player_Score p + points\<rparr> else p) ps"

text \<open>The answer records of a (game, player, question) triple.\<close>

definition answersOf :: "nat \<Rightarrow> nat \<Rightarrow> nat \<Rightarrow> World \<Rightarrow> GameAnswer list" where
  "answersOf gameID playerID questionID w =
     filter (\<lambda>a. Answer_GameID a = gameID \<and> Answer_PlayerID a = playerID \<and>
                 Answer_QuestionID a = questionID) (answers w)"

definition getGameState :: "string \<Rightarrow> World \<Rightarrow> GameState option" where
  "getGameState pin w = map_of (redis w) (ToLower pin)"

definition storeGameState :: "string \<Rightarrow> GameState \<Rightarrow> World \<Rightarrow> World" where
  "storeGameState pin state w = w\<lparr>redis := AList.update (ToLower pin) state (redis w)\<rparr>"

section \<open>The hub's broadcast\<close>

text \<open>
  The loop of \<open>BroadcastToGame\<close> over the clients: a client of the game gets the message
  when its channel has room, and is closed and removed when it is full.
\<close>

fun sendToGame :: "string \<Rightarrow> Message \<Rightarrow> Client list \<Rightarrow> Client list" where
  "sendToGame gamePin data [] = []"
| "sendToGame gamePin data (client # rest) =
     (if EqualFold (Client_gamePin client) gamePin
      then (if length (Client_send client) < 256
            then client\<lparr>Client_send := Client_send client @ [data]\<rparr> # sendToGame gamePin data rest
            else sendToGame gamePin data rest)
      else client # sendToGame gamePin data rest)"

text \<open>
  \<open>BroadcastToGame\<close> takes the read lock first: \<open>None\<close> when the write lock is held, since
  the call then never returns. What follows the loop in the source only writes to the log.
\<close>

definition BroadcastToGame :: "string \<Rightarrow> string \<Rightarrow> Payload \<Rightarrow> World \<Rightarrow> World option" where
  "BroadcastToGame gamePin messageType payload w =
     (let message = \<lparr>Message_Type = messageType, Message_Payload = payload\<rparr> in
      case mutex (hub w) of
        WriteLocked \<Rightarrow> None
      | Unlocked \<Rightarrow>
          Some (w\<lparr>hub := (hub w)\<lparr>clients := sendToGame gamePin message (clients (hub w))\<rparr>,
                  trace := trace w @ [(gamePin, message)]\<rparr>))"

section \<open>The session controller\<close>

subsection \<open>Creating a session\<close>

text \<open>
  \<open>generatePin\<close>: three bytes of \<open>crypto/rand\<close>, written as six hexadecimal digits. The bytes
  that \<open>rand.Read\<close> delivers are arguments \<open>b0\<close>, \<open>b1\<close>, \<open>b2\<close> of the model. \<open>StartGame\<close> calls
  \<open>generatePin\<close> once and inserts the game; the unique index on \<open>Game.Pin\<close> refuses a code that
  another game already has.
\<close>

definition generatePin :: "8 word \<Rightarrow> 8 word \<Rightarrow> 8 word \<Rightarrow> string" where
  "generatePin b0 b1 b2 = take 6 (EncodeToString [b0, b1, b2])"

definition StartGame ::
  "nat \<Rightarrow> nat \<Rightarrow> 8 word \<Rightarrow> 8 word \<Rightarrow> 8 word \<Rightarrow> World \<Rightarrow> (go_error + Game) \<times> World" where
  "StartGame userID reqQuizID b0 b1 b2 w =
     (case find (\<lambda>z. Quiz_ID z = reqQuizID \<and> Quiz_UserID z = userID) (quizzes w) of
        None \<Rightarrow> (Inl QuizNotFound, w)
      | Some quiz \<Rightarrow>
          let pin = generatePin b0 b1 b2;
              game = \<lparr>Game_ID = nextID (map Game_ID (games w)), Game_QuizID = reqQuizID,
                      Game_Pin = pin, Game_Status = ''waiting''\<rparr>
          in if pin \<in> set (map Game_Pin (games w)) then (Inl DuplicateKey, w)
             else
               let w1 = w\<lparr>games := games w @ [game]\<rparr>;
                   gameState =
                     \<lparr>GameState_GameID = Game_ID game, GameState_QuizID = Game_QuizID game,
                      GameState_Pin = Game_Pin game, GameState_Status = Game_Status game,
                      CurrentQuestion = None, CurrentQuestionIndex = - 1, Players = [],
                      Leaderboard = [],
                      TotalQuestions =
                        int (length (filter (\<lambda>q. Question_QuizID q = Quiz_ID quiz) (questions w1)))\<rparr>
               in (Inr game, storeGameState (ToLower (Game_Pin game)) gameState w1))"

subsection \<open>Activating a session\<close>

text \<open>
  \<open>StartQuiz\<close> looks the game up, checks that the requester owns its quiz, and writes the
  status \<open>active\<close> to the store and to the snapshot, which it creates when Redis has none.
  The game it returns is the struct that was given to \<open>Update\<close>, taken here with the new
  status.
\<close>

definition StartQuiz :: "string \<Rightarrow> nat \<Rightarrow> World \<Rightarrow> (go_error + Game) \<times> World" where
  "StartQuiz gamePin userID w =
     (let normalizedPin = ToLower gamePin in
      case findGame normalizedPin w of
        None \<Rightarrow> (Inl GameNotFound, w)
      | Some game \<Rightarrow>
          (case find (\<lambda>z. Quiz_ID z = Game_QuizID game \<and> Quiz_UserID z = userID) (quizzes w) of
             None \<Rightarrow> (Inl UnauthorizedToStart, w)
           | Some quiz \<Rightarrow>
               let w1 = setGameStatus (Game_ID game) ''active'' w;
                   total = int (length (gameQuestions game w));
                   gameState =
                     (case getGameState normalizedPin w1 of
                        None \<Rightarrow>
                          \<lparr>GameState_GameID = Game_ID game, GameState_QuizID = Game_QuizID game,
                           GameState_Pin = normalizedPin, GameState_Status = ''active'',
                           CurrentQuestion = None, CurrentQuestionIndex = - 1, Players = [],
                           Leaderboard = [], TotalQuestions = total\<rparr>
                      | Some gs \<Rightarrow> gs\<lparr>GameState_Status := ''active'', TotalQuestions := total\<rparr>);
                   gameState' = gameState\<lparr>Players := map toGamePlayer (gamePlayers (Game_ID game) w1)\<rparr>
               in (Inr (game\<lparr>Game_Status := ''active''\<rparr>), storeGameState normalizedPin gameState' w1)))"

subsection \<open>Joining\<close>

definition JoinGame :: "JoinGameRequest \<Rightarrow> World \<Rightarrow> (go_error + Player) \<times> World" where
  "JoinGame req w =
     (let pin = ToLower (Join_Pin req) in
      case findGame pin w of
        None \<Rightarrow> (Inl GameNotFound, w)
      | Some game \<Rightarrow>
          if Game_Status game \<noteq> ''waiting'' \<and> Game_Status game \<noteq> ''active''
          then (Inl (CannotJoin (Game_Status game)), w)
          else
            (case find (\<lambda>p. Player_GameID p = Game_ID game \<and> Player_Name p = Join_Name req) (players w) of
               Some existingPlayer \<Rightarrow> (Inl PlayerNameTaken, w)
             | None \<Rightarrow>
                 let player = \<lparr>Player_ID = nextID (map Player_ID (players w)),
                               Player_GameID = Game_ID game, Player_Name = Join_Name req,
                               Player_Score = 0\<rparr>;
                     w1 = w\<lparr>players := players w @ [player]\<rparr>;
                     normalizedPin = ToLower (Game_Pin game);
                     gameState =
                       (case getGameState normalizedPin w1 of
                          None \<Rightarrow>
                            \<lparr>GameState_GameID = Game_ID game, GameState_QuizID = Game_QuizID game,
                             GameState_Pin = normalizedPin, GameState_Status = Game_Status game,
                             CurrentQuestion = None, CurrentQuestionIndex = - 1, Players = [],
                             Leaderboard = [], TotalQuestions = 0\<rparr>
                        | Some gs \<Rightarrow> gs);
                     gameState' = gameState\<lparr>Players := Players gameState @ [toGamePlayer player]\<rparr>
                 in (Inr player, storeGameState normalizedPin gameState' w1)))"

subsection \<open>Scoring\<close>

text \<open>
  \<open>calculatePoints\<close> of \<open>game_service.go\<close>: nothing for a wrong answer; otherwise 100 base
  points and the time bonus \<open>int(math.Max(0, float64(50*(timeLimit-timeSpent)/timeLimit)))\<close>.
  The quotient is an integer division, so it panics when \<open>timeLimit\<close> is 0.
\<close>

definition calculatePoints :: "int \<Rightarrow> int \<Rightarrow> bool \<Rightarrow> go_error + int" where
  "calculatePoints timeSpent timeLimit isCorrect =
     (if \<not> isCorrect then Inr 0
      else if timeLimit = 0 then Inl PanicDivideByZero
      else
        let basePoints = 100;
            timeBonus = max 0 (go_quot (50 * (timeLimit - timeSpent)) timeLimit)
        in Inr (basePoints + timeBonus))"

text \<open>The default of \<open>SubmitAnswer\<close>: a time spent of 0 (also an absent JSON field) is
  replaced by the question's time limit.\<close>

definition defaultTimeSpent :: "int \<Rightarrow> int \<Rightarrow> int" where
  "defaultTimeSpent reqTimeSpent timeLimit = (if reqTimeSpent = 0 then timeLimit else reqTimeSpent)"

subsection \<open>Submitting an answer\<close>

text \<open>The loop that adds the points to the first player of the snapshot with the given id.\<close>

fun addScore :: "nat \<Rightarrow> int \<Rightarrow> GamePlayer list \<Rightarrow> GamePlayer list" where
  "addScore playerID points [] = []"
| "addScore playerID points (player # rest) =
     (if GamePlayer_ID player = playerID
      then player\<lparr>GamePlayer_Score := GamePlayer_Score player + points\<rparr> # rest
      else player # addScore playerID points rest)"

text \<open>
  The argument \<open>hasHub\<close> of the functions below says that the \<open>hub\<close> pointer they are given is
  not nil; the one hub of the process is part of the state. The result is \<open>None\<close> when the
  call never returns.
\<close>

definition SubmitAnswer ::
  "string \<Rightarrow> nat \<Rightarrow> SubmitAnswerRequest \<Rightarrow> bool \<Rightarrow> World \<Rightarrow> ((go_error + unit) \<times> World) option" where
  "SubmitAnswer gamePin playerID req hasHub w =
     (let normalizedPin = ToLower gamePin in
      case findGame (ToLower normalizedPin) w of
        None \<Rightarrow> Some (Inl GameNotFound, w)
      | Some game \<Rightarrow>
          if Game_Status game \<noteq> ''active'' then Some (Inl GameNotActive, w)
          else
            (case find (\<lambda>a. Answer_GameID a = Game_ID game \<and> Answer_PlayerID a = playerID \<and>
                            Answer_QuestionID a = Submit_QuestionID req) (answers w) of
               Some existingAnswer \<Rightarrow> Some (Inl AnswerAlreadySubmitted, w)
             | None \<Rightarrow>
                 (case find (\<lambda>q. Question_ID q = Submit_QuestionID req) (questions w) of
                    None \<Rightarrow> Some (Inl QuestionNotFound, w)
                  | Some question \<Rightarrow>
                      (case find (\<lambda>opt. Option_ID opt = Submit_OptionID req) (options w) of
                         None \<Rightarrow> Some (Inl OptionNotFound, w)
                       | Some option \<Rightarrow>
                           let timeSpent =
                                 defaultTimeSpent (Submit_TimeSpent req) (Question_TimeLimit question)
                           in (case calculatePoints timeSpent (Question_TimeLimit question)
                                      (Option_IsCorrect option) of
                                 Inl panic \<Rightarrow> Some (Inl panic, w)
                               | Inr points \<Rightarrow>
                                   let gameAnswer =
                                         \<lparr>Answer_ID = nextID (map Answer_ID (answers w)),
                                          Answer_GameID = Game_ID game, Answer_PlayerID = playerID,
                                          Answer_QuestionID = Submit_QuestionID req,
                                          Answer_OptionID = Submit_OptionID req,
                                          Answer_IsCorrect = Option_IsCorrect option,
                                          Answer_TimeSpent = timeSpent, Answer_Points = points\<rparr>;
                                       w1 = w\<lparr>answers := answers w @ [gameAnswer]\<rparr>;
                                       w2 = w1\<lparr>players := addPoints playerID points (players w1)\<rparr>;
                                       w3 = (case getGameState normalizedPin w2 of
                                               None \<Rightarrow> w2
                                             | Some gameState \<Rightarrow>
                                                 storeGameState normalizedPin
                                                   (gameState\<lparr>Players :=
                                                      addScore playerID points (Players gameState)\<rparr>) w2);
                                       updatedPlayers = gamePlayers (Game_ID game) w3
                                   in if hasHub
                                      then (case BroadcastToGame normalizedPin ''score_update''
                                                   (ScoreUpdatePayload updatedPlayers playerID points True) w3 of
                                              None \<Rightarrow> None
                                            | Some w4 \<Rightarrow> Some (Inr (), w4))
                                      else Some (Inr (), w3))))))"

text \<open>
  \<open>SubmitAnswer\<close> is not one step of the store: its lookups and its insert are separate
  calls, with no transaction around them and no unique index on the triple, and every
  request runs in a goroutine of its own. \<open>SubmitAnswer_lookup\<close> is the part that only
  reads (up to the call of \<open>calculatePoints\<close>), with the local values the rest needs;
  \<open>SubmitAnswer_write\<close> is the rest, from the insert to the broadcast.
\<close>

record PendingAnswer =
  Pending_gameID :: nat
  Pending_isCorrect :: bool
  Pending_timeSpent :: int
  Pending_points :: int

definition SubmitAnswer_lookup ::
  "string \<Rightarrow> nat \<Rightarrow> SubmitAnswerRequest \<Rightarrow> World \<Rightarrow> go_error + PendingAnswer" where
  "SubmitAnswer_lookup gamePin playerID req w =
     (let normalizedPin = ToLower gamePin in
      case findGame (ToLower normalizedPin) w of
        None \<Rightarrow> Inl GameNotFound
      | Some game \<Rightarrow>
          if Game_Status game \<noteq> ''active'' then Inl GameNotActive
          else
            (case find (\<lambda>a. Answer_GameID a = Game_ID game \<and> Answer_PlayerID a = playerID \<and>
                            Answer_QuestionID a = Submit_QuestionID req) (answers w) of
               Some existingAnswer \<Rightarrow> Inl AnswerAlreadySubmitted
             | None \<Rightarrow>
                 (case find (\<lambda>q. Question_ID q = Submit_QuestionID req) (questions w) of
                    None \<Rightarrow> Inl QuestionNotFound
                  | Some question \<Rightarrow>
                      (case find (\<lambda>opt. Option_ID opt = Submit_OptionID req) (options w) of
                         None \<Rightarrow> Inl OptionNotFound
                       | Some option \<Rightarrow>
                           let timeSpent =
                                 defaultTimeSpent (Submit_TimeSpent req) (Question_TimeLimit question)
                           in (case calculatePoints timeSpent (Question_TimeLimit question)
                                      (Option_IsCorrect option) of
                                 Inl panic \<Rightarrow> Inl panic
                               | Inr points \<Rightarrow>
                                   Inr \<lparr>Pending_gameID = Game_ID game,
                                        Pending_isCorrect = Option_IsCorrect option,
                                        Pending_timeSpent = timeSpent,
                                        Pending_points = points\<rparr>)))))"

definition SubmitAnswer_write ::
  "string \<Rightarrow> nat \<Rightarrow> SubmitAnswerRequest \<Rightarrow> bool \<Rightarrow> PendingAnswer \<Rightarrow> World \<Rightarrow>
     ((go_error + unit) \<times> World) option" where
  "SubmitAnswer_write gamePin playerID req hasHub pending w =
     (let normalizedPin = ToLower gamePin;
          points = Pending_points pending;
          gameAnswer =
            \<lparr>Answer_ID = nextID (map Answer_ID (answers w)),
             Answer_GameID = Pending_gameID pending, Answer_PlayerID = playerID,
             Answer_QuestionID = Submit_QuestionID req,
             Answer_OptionID = Submit_OptionID req,
             Answer_IsCorrect = Pending_isCorrect pending,
             Answer_TimeSpent = Pending_timeSpent pending, Answer_Points = points\<rparr>;
          w1 = w\<lparr>answers := answers w @ [gameAnswer]\<rparr>;
          w2 = w1\<lparr>players := addPoints playerID points (players w1)\<rparr>;
          w3 = (case getGameState normalizedPin w2 of
                  None \<Rightarrow> w2
                | Some gameState \<Rightarrow>
                    storeGameState normalizedPin
                      (gameState\<lparr>Players := addScore playerID points (Players gameState)\<rparr>) w2);
          updatedPlayers = gamePlayers (Pending_gameID pending) w3
      in if hasHub
         then (case BroadcastToGame normalizedPin ''score_update''
                      (ScoreUpdatePayload updatedPlayers playerID points True) w3 of
                 None \<Rightarrow> None
               | Some w4 \<Rightarrow> Some (Inr (), w4))
         else Some (Inr (), w3))"

text \<open>
  Two requests that overlap: both do their lookups in the same state, before either has
  inserted; then the first writes, then the second. The result is the two results and the
  state after both.
\<close>

definition SubmitAnswer_overlapping ::
  "string \<Rightarrow> nat \<Rightarrow> SubmitAnswerRequest \<Rightarrow> SubmitAnswerRequest \<Rightarrow> bool \<Rightarrow> World \<Rightarrow>
     ((go_error + unit) \<times> (go_error + unit) \<times> World) option" where
  "SubmitAnswer_overlapping gamePin playerID req1 req2 hasHub w =
     (let looked1 = SubmitAnswer_lookup gamePin playerID req1 w;
          looked2 = SubmitAnswer_lookup gamePin playerID req2 w
      in case (case looked1 of
                 Inl err \<Rightarrow> Some (Inl err, w)
               | Inr pending \<Rightarrow> SubmitAnswer_write gamePin playerID req1 hasHub pending w) of
           None \<Rightarrow> None
         | Some (result1, w1) \<Rightarrow>
             (case (case looked2 of
                      Inl err \<Rightarrow> Some (Inl err, w1)
                    | Inr pending \<Rightarrow> SubmitAnswer_write gamePin playerID req2 hasHub pending w1) of
                None \<Rightarrow> None
              | Some (result2, w2) \<Rightarrow> Some (result1, result2, w2)))"

subsection \<open>Starting, ending and advancing questions\<close>

text \<open>
  \<open>StartQuestion\<close>: indexing the questions with a negative index panics. The snapshot of the
  question and the broadcast carry the options as \<open>GameOption\<close>s, which have an id and a text.
\<close>

definition toGameOption :: "OptionRow \<Rightarrow> GameOption" where
  "toGameOption opt = \<lparr>GameOption_ID = Option_ID opt, GameOption_Text = Option_Text opt\<rparr>"

definition StartQuestion ::
  "string \<Rightarrow> int \<Rightarrow> bool \<Rightarrow> World \<Rightarrow> ((go_error + unit) \<times> World) option" where
  "StartQuestion gamePin questionIndex hasHub w =
     (let normalizedPin = ToLower gamePin in
      case findGame normalizedPin w of
        None \<Rightarrow> Some (Inl GameNotFound, w)
      | Some game \<Rightarrow>
          let qs = gameQuestions game w in
          if questionIndex \<ge> int (length qs) then Some (Inl QuestionIndexOutOfRange, w)
          else if questionIndex < 0 then Some (Inl PanicIndexOutOfRange, w)
          else
            let question = qs ! nat questionIndex in
            (case getGameState normalizedPin w of
               None \<Rightarrow> Some (Inl GameStateNotFoundInRedis, w)
             | Some gameState \<Rightarrow>
                 let currentQuestion =
                       \<lparr>GameQuestion_ID = Question_ID question,
                        GameQuestion_Text = Question_Text question,
                        GameQuestion_TimeLimit = Question_TimeLimit question,
                        GameQuestion_Options = map toGameOption (questionOptions question w),
                        GameQuestion_TimeLeft = Question_TimeLimit question\<rparr>;
                     gameState' = gameState\<lparr>CurrentQuestionIndex := questionIndex,
                                              CurrentQuestion := Some currentQuestion\<rparr>;
                     w1 = storeGameState normalizedPin gameState' w
                 in if hasHub
                    then (case BroadcastToGame normalizedPin ''question_start''
                                 (QuestionStartPayload questionIndex (Question_ID question)
                                    (Question_Text question) (Question_TimeLimit question)
                                    (GameQuestion_Options currentQuestion) (int (length qs))) w1 of
                            None \<Rightarrow> None
                          | Some w2 \<Rightarrow>
                              Some (Inr (),
                                    w2\<lparr>timers := timers w2 @
                                         [\<lparr>Timer_gamePin = normalizedPin,
                                           Timer_questionIndex = questionIndex,
                                           Timer_timeLimit = Question_TimeLimit question\<rparr>]\<rparr>))
                    else Some (Inr (), w1)))"

text \<open>\<open>EndQuestion\<close>: gathers the answers of the question and broadcasts \<open>question_end\<close>.\<close>

definition answerResult :: "World \<Rightarrow> GameAnswer \<Rightarrow> AnswerResult" where
  "answerResult w answer =
     \<lparr>Result_player_id = Answer_PlayerID answer,
      Result_player_name =
        (case find (\<lambda>p. Player_ID p = Answer_PlayerID answer) (players w) of
           None \<Rightarrow> []
         | Some player \<Rightarrow> Player_Name player),
      Result_option_id = Answer_OptionID answer,
      Result_is_correct = Answer_IsCorrect answer,
      Result_points = Answer_Points answer,
      Result_time_spent = Answer_TimeSpent answer\<rparr>"

definition questionEndPayload :: "Game \<Rightarrow> int \<Rightarrow> World \<Rightarrow> Payload" where
  "questionEndPayload game questionIndex w =
     (let qs = gameQuestions game w;
          question = qs ! nat questionIndex;
          gameAnswers = filter (\<lambda>a. Answer_GameID a = Game_ID game \<and>
                                     Answer_QuestionID a = Question_ID question) (answers w)
      in QuestionEndPayload questionIndex question (questionOptions question w)
           (find Option_IsCorrect (questionOptions question w))
           (map (answerResult w) gameAnswers) (int (length qs)))"

definition EndQuestion ::
  "string \<Rightarrow> bool \<Rightarrow> int \<Rightarrow> World \<Rightarrow> ((go_error + unit) \<times> World) option" where
  "EndQuestion gamePin hasHub questionIndex w =
     (let normalizedPin = ToLower gamePin in
      case findGame normalizedPin w of
        None \<Rightarrow> Some (Inl GameNotFound, w)
      | Some game \<Rightarrow>
          if questionIndex \<ge> int (length (gameQuestions game w)) then Some (Inl InvalidQuestionIndex, w)
          else if questionIndex < 0 then Some (Inl PanicIndexOutOfRange, w)
          else if hasHub
          then (case BroadcastToGame normalizedPin ''question_end''
                       (questionEndPayload game questionIndex w) w of
                  None \<Rightarrow> None
                | Some w1 \<Rightarrow> Some (Inr (), w1))
          else Some (Inr (), w))"

text \<open>
  \<open>NextQuestion\<close>: past the last question it finishes the session and broadcasts the final
  leaderboard (the players by falling score); otherwise it starts the next question.
\<close>

definition NextQuestion ::
  "string \<Rightarrow> bool \<Rightarrow> World \<Rightarrow> ((go_error + unit) \<times> World) option" where
  "NextQuestion gamePin hasHub w =
     (let normalizedPin = ToLower gamePin in
      case getGameState normalizedPin w of
        None \<Rightarrow> Some (Inl GameStateNotFound, w)
      | Some gameState \<Rightarrow>
          (case findGame normalizedPin w of
             None \<Rightarrow> Some (Inl GameNotFound, w)
           | Some game \<Rightarrow>
               let total = int (length (gameQuestions game w));
                   nextQuestionIndex = CurrentQuestionIndex gameState + 1
               in if nextQuestionIndex \<ge> total
                  then
                    let w1 = setGameStatus (Game_ID game) ''finished'' w;
                        gameState' = gameState\<lparr>GameState_Status := ''finished'',
                                                 CurrentQuestion := None,
                                                 CurrentQuestionIndex := total\<rparr>;
                        w2 = storeGameState normalizedPin gameState' w1;
                        finalLeaderboard =
                          map toGamePlayer
                            (sort_key (\<lambda>p. - Player_Score p) (gamePlayers (Game_ID game) w2))
                    in if hasHub
                       then (case BroadcastToGame normalizedPin ''game_end''
                                    (GameEndPayload ''Quiz completed! Here are the final results:''
                                       finalLeaderboard total) w2 of
                               None \<Rightarrow> None
                             | Some w3 \<Rightarrow> Some (Inr (), w3))
                       else Some (Inr (), w2)
                  else StartQuestion normalizedPin nextQuestionIndex hasHub w))"

subsection \<open>The question timer\<close>

text \<open>
  One round of the loop of \<open>runQuestionTimer\<close>, after the tick and the decrement: the time
  left is written into the snapshot's current question, whichever it is, and broadcast.
\<close>

definition timerTick :: "string \<Rightarrow> int \<Rightarrow> int \<Rightarrow> bool \<Rightarrow> World \<Rightarrow> World option" where
  "timerTick normalizedPin questionIndex timeLeft hasHub w =
     (let w1 = (case getGameState normalizedPin w of
                  None \<Rightarrow> w
                | Some gameState \<Rightarrow>
                    (case CurrentQuestion gameState of
                       None \<Rightarrow> w
                     | Some cq \<Rightarrow>
                         storeGameState normalizedPin
                           (gameState\<lparr>CurrentQuestion := Some (cq\<lparr>GameQuestion_TimeLeft := timeLeft\<rparr>)\<rparr>) w))
      in if hasHub
         then BroadcastToGame normalizedPin ''timer_update'' (TimerUpdatePayload questionIndex timeLeft) w1
         else Some w1)"

function timerLoop :: "string \<Rightarrow> int \<Rightarrow> int \<Rightarrow> bool \<Rightarrow> World \<Rightarrow> World option" where
  "timerLoop normalizedPin questionIndex timeLeft hasHub w =
     (if timeLeft > 0
      then (case timerTick normalizedPin questionIndex (timeLeft - 1) hasHub w of
              None \<Rightarrow> None
            | Some w1 \<Rightarrow> timerLoop normalizedPin questionIndex (timeLeft - 1) hasHub w1)
      else Some w)"
  by pat_completeness auto
termination
  by (relation "measure (\<lambda>(p, i, t, h, w). nat t)") auto

text \<open>
  The whole run of a timer: the countdown, then \<open>EndQuestion\<close>. Nothing in it reads the
  session's status or its current question index.
\<close>

definition runQuestionTimer :: "string \<Rightarrow> int \<Rightarrow> int \<Rightarrow> bool \<Rightarrow> World \<Rightarrow> World option" where
  "runQuestionTimer gamePin questionIndex timeLimit hasHub w =
     (let normalizedPin = ToLower gamePin in
      case timerLoop normalizedPin questionIndex timeLimit hasHub w of
        None \<Rightarrow> None
      | Some w1 \<Rightarrow>
          if hasHub
          then (case EndQuestion normalizedPin hasHub questionIndex w1 of
                  None \<Rightarrow> None
                | Some (r, w2) \<Rightarrow> Some w2)
          else Some w1)"

text \<open>The oldest spawned timer runs to its end.\<close>

definition runSpawnedTimer :: "World \<Rightarrow> World option" where
  "runSpawnedTimer w =
     (case timers w of
        [] \<Rightarrow> Some w
      | t # ts \<Rightarrow>
          runQuestionTimer (Timer_gamePin t) (Timer_questionIndex t) (Timer_timeLimit t) True
            (w\<lparr>timers := ts\<rparr>))"

subsection \<open>The handlers of the control requests\<close>

definition CheckGameOwnership :: "string \<Rightarrow> nat \<Rightarrow> World \<Rightarrow> go_error + unit" where
  "CheckGameOwnership gamePin userID w =
     (case findGame (ToLower gamePin) w of
        None \<Rightarrow> Inl GameNotFound
      | Some game \<Rightarrow>
          (case find (\<lambda>z. Quiz_ID z = Game_QuizID game \<and> Quiz_UserID z = userID) (quizzes w) of
             None \<Rightarrow> Inl UnauthorizedToControl
           | Some quiz \<Rightarrow> Inr ()))"

text \<open>\<open>GameHandler.StartQuiz\<close>: activates the session, then starts question 0.\<close>

definition Handler_StartQuiz ::
  "string \<Rightarrow> nat \<Rightarrow> World \<Rightarrow> ((go_error + unit) \<times> World) option" where
  "Handler_StartQuiz gamePin userID w =
     (let normalizedPin = ToLower gamePin in
      case StartQuiz normalizedPin userID w of
        (Inl err, w1) \<Rightarrow> Some (Inl err, w1)
      | (Inr game, w1) \<Rightarrow> StartQuestion normalizedPin 0 True w1)"

text \<open>\<open>GameHandler.NextQuestion\<close>: the ownership check, then the advance.\<close>

definition Handler_NextQuestion ::
  "string \<Rightarrow> nat \<Rightarrow> World \<Rightarrow> ((go_error + unit) \<times> World) option" where
  "Handler_NextQuestion gamePin userID w =
     (let normalizedPin = ToLower gamePin in
      case CheckGameOwnership normalizedPin userID w of
        Inl err \<Rightarrow> Some (Inl err, w)
      | Inr u \<Rightarrow> NextQuestion normalizedPin True w)"

section \<open>The hub's unregister branch\<close>

text \<open>
  Modelled from the spec: \<open>GameService.UpdateGameStatus\<close> is called by \<open>Hub.Run\<close> and is not
  among the sources. The spec has the departure of the host force-finish the session: the
  game's status is set in the store and in the snapshot, and a code without a game is an
  error.
\<close>

definition UpdateGameStatus :: "string \<Rightarrow> string \<Rightarrow> World \<Rightarrow> (go_error + unit) \<times> World" where
  "UpdateGameStatus gamePin status w =
     (let normalizedPin = ToLower gamePin in
      case findGame normalizedPin w of
        None \<Rightarrow> (Inl GameNotFound, w)
      | Some game \<Rightarrow>
          let w1 = setGameStatus (Game_ID game) status w
          in (Inr (),
              (case getGameState normalizedPin w1 of
                 None \<Rightarrow> w1
               | Some gameState \<Rightarrow>
                   storeGameState normalizedPin (gameState\<lparr>GameState_Status := status\<rparr>) w1)))"

text \<open>
  The \<open>unregister\<close> case of \<open>Hub.Run\<close>. It takes the write lock, removes the client and, for
  the creator (player id 0), updates the status and calls \<open>BroadcastToGame\<close> before it gives
  the lock back. \<open>hasGameService\<close> says that the hub's \<open>gameService\<close> is not nil.
\<close>

definition unlockHub :: "World \<Rightarrow> World" where
  "unlockHub w = w\<lparr>hub := (hub w)\<lparr>mutex := Unlocked\<rparr>\<rparr>"

definition Run_unregister :: "bool \<Rightarrow> Client \<Rightarrow> World \<Rightarrow> World option" where
  "Run_unregister hasGameService client w =
     (case mutex (hub w) of
        WriteLocked \<Rightarrow> None
      | Unlocked \<Rightarrow>
          let w1 = w\<lparr>hub := (hub w)\<lparr>mutex := WriteLocked\<rparr>\<rparr> in
          if Client_ptr client \<in> set (map Client_ptr (clients (hub w1)))
          then
            let w2 = w1\<lparr>hub := (hub w1)\<lparr>clients :=
                          filter (\<lambda>c. Client_ptr c \<noteq> Client_ptr client) (clients (hub w1))\<rparr>\<rparr>
            in if Client_playerID client = 0 \<and> hasGameService
               then (case UpdateGameStatus (Client_gamePin client) ''finished'' w2 of
                       (Inl err, w3) \<Rightarrow> Some (unlockHub w3)
                     | (Inr u, w3) \<Rightarrow>
                         (case BroadcastToGame (Client_gamePin client) ''game_end''
                                 (CreatorLeftPayload
                                    ''Quiz creator has left the game. The quiz has ended.''
                                    ''creator_disconnected'') w3 of
                            None \<Rightarrow> None
                          | Some w4 \<Rightarrow> Some (unlockHub w4)))
               else Some (unlockHub w2)
          else Some (unlockHub w1))"

section \<open>An example session\<close>

text \<open>
  A quiz of user 7 with two questions of 30 seconds, one game with the code \<open>a1b2c3\<close> in the
  given status, question 0 open, one player, and two connections: the creator's (player
  id 0) and the player's.
\<close>

definition example_question1 :: GameQuestion where
  "example_question1 =
     \<lparr>GameQuestion_ID = 1, GameQuestion_Text = ''Q1'', GameQuestion_TimeLimit = 30,
      GameQuestion_Options = [\<lparr>GameOption_ID = 1, GameOption_Text = ''A''\<rparr>,
                              \<lparr>GameOption_ID = 2, GameOption_Text = ''B''\<rparr>],
      GameQuestion_TimeLeft = 30\<rparr>"

definition example_state :: "string \<Rightarrow> GameState" where
  "example_state status =
     \<lparr>GameState_GameID = 1, GameState_QuizID = 1, GameState_Pin = ''a1b2c3'',
      GameState_Status = status, CurrentQuestion = Some example_question1,
      CurrentQuestionIndex = 0,
      Players = [\<lparr>GamePlayer_ID = 1, GamePlayer_Name = ''Ann'', GamePlayer_Score = 0\<rparr>],
      Leaderboard = [], TotalQuestions = 2\<rparr>"

definition example_world :: "string \<Rightarrow> World" where
  "example_world status =
     \<lparr>quizzes = [\<lparr>Quiz_ID = 1, Quiz_UserID = 7\<rparr>],
      questions =
        [\<lparr>Question_ID = 1, Question_QuizID = 1, Question_Text = ''Q1'', Question_TimeLimit = 30,
          Question_Order = 1\<rparr>,
         \<lparr>Question_ID = 2, Question_QuizID = 1, Question_Text = ''Q2'', Question_TimeLimit = 30,
          Question_Order = 2\<rparr>],
      options =
        [\<lparr>Option_ID = 1, Option_QuestionID = 1, Option_Text = ''A'', Option_IsCorrect = True,
          Option_Order = 1\<rparr>,
         \<lparr>Option_ID = 2, Option_QuestionID = 1, Option_Text = ''B'', Option_IsCorrect = False,
          Option_Order = 2\<rparr>,
         \<lparr>Option_ID = 3, Option_QuestionID = 2, Option_Text = ''C'', Option_IsCorrect = False,
          Option_Order = 1\<rparr>,
         \<lparr>Option_ID = 4, Option_QuestionID = 2, Option_Text = ''D'', Option_IsCorrect = True,
          Option_Order = 2\<rparr>],
      games = [\<lparr>Game_ID = 1, Game_QuizID = 1, Game_Pin = ''a1b2c3'', Game_Status = status\<rparr>],
      players = [\<lparr>Player_ID = 1, Player_GameID = 1, Player_Name = ''Ann'', Player_Score = 0\<rparr>],
      answers = [],
      redis = [(''a1b2c3'', example_state status)],
      hub = \<lparr>clients =
               [\<lparr>Client_ptr = 1, Client_gamePin = ''a1b2c3'', Client_playerID = 0,
                 Client_playerName = ''Host'', Client_send = []\<rparr>,
                \<lparr>Client_ptr = 2, Client_gamePin = ''a1b2c3'', Client_playerID = 1,
                 Client_playerName = ''Ann'', Client_send = []\<rparr>],
             mutex = Unlocked\<rparr>,
      timers = [], trace = []\<rparr>"

definition example_answer :: SubmitAnswerRequest where
  "example_answer =
     \<lparr>Submit_PlayerID = 1, Submit_QuestionID = 1, Submit_OptionID = 1, Submit_TimeSpent = 10\<rparr>"

text \<open>
  For the claim that \<open>StartQuestion\<close> reveals nothing about the correct option:
  \<open>hideCorrect\<close> erases the \<open>is_correct\<close> flags of the store, so two states differ in these
  flags only when \<open>hideCorrect\<close> makes them equal; \<open>startObservation\<close> is what a call leaves
  for the clients and in Redis (its result, the Redis keys, the hub with the queued
  messages, the broadcasts, the spawned timers); \<open>flipCorrect\<close> inverts every flag.
\<close>

definition hideCorrect :: "World \<Rightarrow> World" where
  "hideCorrect w = w\<lparr>options := map (\<lambda>opt. opt\<lparr>Option_IsCorrect := False\<rparr>) (options w)\<rparr>"

definition startObservation :: "((go_error + unit) \<times> World) option \<Rightarrow>
    ((go_error + unit) \<times> (string \<times> GameState) list \<times> Hub \<times> (string \<times> Message) list \<times> Timer list) option" where
  "startObservation res = map_option (\<lambda>(r, v). (r, redis v, hub v, trace v, timers v)) res"

definition flipCorrect :: "World \<Rightarrow> World" where
  "flipCorrect w = w\<lparr>options := map (\<lambda>opt. opt\<lparr>Option_IsCorrect := \<not> Option_IsCorrect opt\<rparr>) (options w)\<rparr>"

text \<open>The example session after the owner's "next" request, and after a "start" request
  that follows it.\<close>

definition example_after_next :: World where
  "example_after_next = snd (the (Handler_NextQuestion ''a1b2c3'' 7 (example_world ''active'')))"

definition example_after_restart :: World where
  "example_after_restart = snd (the (Handler_StartQuiz ''a1b2c3'' 7 example_after_next))"

text \<open>
  For the claims about \<open>EndQuestion\<close>: \<open>storeData\<close> is the content of the durable store,
  \<open>sessionData\<close> adds the Redis keys, and \<open>questionEndMessage\<close> is the message that
  \<open>EndQuestion\<close> broadcasts.
\<close>

definition sessionData :: "World \<Rightarrow>
    Quiz list \<times> Question list \<times> OptionRow list \<times> Game list \<times> Player list \<times> GameAnswer list \<times>
    (string \<times> GameState) list" where
  "sessionData w = (quizzes w, questions w, options w, games w, players w, answers w, redis w)"

definition storeData :: "World \<Rightarrow>
    Quiz list \<times> Question list \<times> OptionRow list \<times> Game list \<times> Player list \<times> GameAnswer list" where
  "storeData w = (quizzes w, questions w, options w, games w, players w, answers w)"

definition questionEndMessage :: "Game \<Rightarrow> int \<Rightarrow> World \<Rightarrow> Message" where
  "questionEndMessage game i w =
     \<lparr>Message_Type = ''question_end'', Message_Payload = questionEndPayload game i w\<rparr>"

text \<open>The creator's connection of the example, and the example session after two calls of
  \<open>EndQuestion\<close> for question 0.\<close>

definition example_host :: Client where
  "example_host =
     \<lparr>Client_ptr = 1, Client_gamePin = ''a1b2c3'', Client_playerID = 0,
      Client_playerName = ''Host'', Client_send = []\<rparr>"

definition example_ended_twice :: World where
  "example_ended_twice =
     snd (the (EndQuestion ''a1b2c3'' True 0
       (snd (the (EndQuestion ''a1b2c3'' True 0 (example_world ''active''))))))"

text \<open>
  The waiting example session after the owner's "start" request, and after the "next"
  request that follows; \<open>broadcastKinds\<close> lists the type and the question index of the
  broadcasts made so far.
\<close>

definition example_started :: World where
  "example_started = snd (the (Handler_StartQuiz ''a1b2c3'' 7 (example_world ''waiting'')))"

definition example_advanced :: World where
  "example_advanced = snd (the (Handler_NextQuestion ''a1b2c3'' 7 example_started))"

definition broadcastKinds :: "World \<Rightarrow> (string \<times> int) list" where
  "broadcastKinds w =
     map (\<lambda>(pin, m). (Message_Type m,
            case Message_Payload m of
              QuestionStartPayload i qid text limit opts n \<Rightarrow> i
            | TimerUpdatePayload i left \<Rightarrow> i
            | QuestionEndPayload i q opts correct results n \<Rightarrow> i
            | _ \<Rightarrow> - 1)) (trace w)"

section \<open>Properties\<close>

subsection \<open>Properties of the scoring\<close>

text \<open>
  The lemmas about correct answers are stated for times below \<open>2 ^ 46\<close> seconds: there
  \<open>50 * (timeLimit - timeSpent)\<close> is below \<open>2 ^ 53\<close> in magnitude, and the model computes what
  the 64-bit integers and the \<open>float64\<close> of the code compute. Beyond, the code wraps and
  rounds and the model does not follow it.
\<close>

lemma go_quot_nonneg: "0 \<le> a \<Longrightarrow> 0 < b \<Longrightarrow> go_quot a b = a div b"
  by (simp add: go_quot_def)

lemma go_quot_neg_num: "a < 0 \<Longrightarrow> 0 < b \<Longrightarrow> go_quot a b \<le> 0"
  by (simp add: go_quot_def pos_imp_zdiv_nonneg_iff)

lemma calculatePoints_incorrect: "calculatePoints ts lim False = Inr 0"
  by (simp add: calculatePoints_def)

lemma calculatePoints_in_time:
  assumes "0 < lim" "0 \<le> ts" "ts \<le> lim" "lim < 2 ^ 46"
  shows "calculatePoints ts lim True = Inr (100 + (50 * (lim - ts)) div lim)"
    and "\<exists>p. calculatePoints ts lim True = Inr p \<and> 100 \<le> p \<and> p \<le> 150"
proof -
  have nn: "0 \<le> 50 * (lim - ts)" using assms by simp
  have le: "50 * (lim - ts) \<le> 50 * lim" using assms by simp
  have q0: "0 \<le> (50 * (lim - ts)) div lim" using nn assms(1) by (simp add: pos_imp_zdiv_nonneg_iff)
  have "(50 * (lim - ts)) div lim \<le> (50 * lim) div lim" using le assms(1) by (rule zdiv_mono1)
  then have q50: "(50 * (lim - ts)) div lim \<le> 50" using assms(1) by simp
  show eq: "calculatePoints ts lim True = Inr (100 + (50 * (lim - ts)) div lim)"
    using assms nn q0 by (simp add: calculatePoints_def go_quot_nonneg max_def)
  show "\<exists>p. calculatePoints ts lim True = Inr p \<and> 100 \<le> p \<and> p \<le> 150"
    using eq q0 q50 by simp
qed

lemma calculatePoints_late:
  assumes "0 < lim" "lim \<le> ts" "ts < 2 ^ 46"
  shows "calculatePoints ts lim True = Inr 100"
proof -
  have "go_quot (50 * (lim - ts)) lim \<le> 0"
  proof (cases "ts = lim")
    case True then show ?thesis by (simp add: go_quot_def)
  next
    case False
    then have "50 * (lim - ts) < 0" using assms by simp
    then show ?thesis using assms(1) by (rule go_quot_neg_num)
  qed
  then show ?thesis using assms by (simp add: calculatePoints_def max_def)
qed

lemma calculatePoints_default_zero:
  "0 < lim \<Longrightarrow> lim < 2 ^ 46 \<Longrightarrow> calculatePoints (defaultTimeSpent 0 lim) lim True = Inr 100"
  by (simp add: defaultTimeSpent_def calculatePoints_late)

text \<open>
  C1. Scoring: a wrong answer earns 0 and a correct one 100 plus a bonus of at most 50, the
  time spent being clamped to the range from 0 to the time limit. The code clamps the bonus
  from below only: a negative time spent, which the request's \<open>time_spent\<close> field admits,
  is used as it is. At time spent \<open>-30\<close> and time limit 30 a correct answer earns 200.
\<close>

theorem calculatePoints_negative_time_spent:
  "calculatePoints (-30) 30 True = Inr 200"
  by (simp add: calculatePoints_def go_quot_def)

subsection \<open>Facts about the store\<close>

lemma lower_char_idem: "lower_char (lower_char c) = lower_char c"
  unfolding lower_char_def by (auto split: option.splits if_splits)

lemma ToLower_idem [simp]: "ToLower (ToLower s) = ToLower s"
  by (simp add: ToLower_def lower_char_idem)

lemma getGameState_store:
  "getGameState p (storeGameState q st w) =
     (if ToLower p = ToLower q then Some st else getGameState p w)"
  by (simp add: getGameState_def storeGameState_def update_conv')

lemma store_fields [simp]:
  "quizzes (storeGameState q st w) = quizzes w"
  "questions (storeGameState q st w) = questions w"
  "options (storeGameState q st w) = options w"
  "games (storeGameState q st w) = games w"
  "players (storeGameState q st w) = players w"
  "answers (storeGameState q st w) = answers w"
  "hub (storeGameState q st w) = hub w"
  "timers (storeGameState q st w) = timers w"
  "trace (storeGameState q st w) = trace w"
  by (simp_all add: storeGameState_def)

lemma find_Some_set: "find P xs = Some x \<Longrightarrow> x \<in> set xs \<and> P x"
  by (induction xs) (auto split: if_splits)

subsection \<open>Joining a session\<close>

lemma fold_max_upper: "x \<in> set ids \<Longrightarrow> x \<le> fold max ids (a::nat)"
proof (induction ids arbitrary: a)
  case Nil
  then show ?case by simp
next
  case (Cons y ys)
  have mono: "b \<le> fold max zs (b::nat)" for b zs
    by (induction zs arbitrary: b) (auto intro: order_trans [OF max.cobounded2])
  show ?case
  proof (cases "x = y")
    case True
    then show ?thesis
      using mono [of "max y a" ys] by simp
  next
    case False
    with Cons show ?thesis by simp
  qed
qed

lemma nextID_fresh: "nextID ids \<notin> set ids"
  using fold_max_upper [of "nextID ids" ids 0] by (auto simp: nextID_def)

text \<open>
  C10. For a code that names a game, \<open>JoinGame\<close> succeeds exactly when the game's status is
  \<open>waiting\<close> or \<open>active\<close> and no player of that game has the requested name. The player it
  creates has score 0 and an id that no player had, and is appended to the players of the
  store; the snapshot's player list gets one more entry, with the player's id, the
  requested name and score 0 (a snapshot that is missing is created with this entry
  alone). A finished game refuses the join and nothing changes.
\<close>

theorem JoinGame_outcome:
  assumes found: "findGame (ToLower (Join_Pin req)) w = Some game"
  shows "((\<exists>player w'. JoinGame req w = (Inr player, w')) \<longleftrightarrow>
            ((Game_Status game = ''waiting'' \<or> Game_Status game = ''active'') \<and>
             \<not> (\<exists>p \<in> set (players w). Player_GameID p = Game_ID game \<and> Player_Name p = Join_Name req)))
       \<and> (\<forall>player w'. JoinGame req w = (Inr player, w') \<longrightarrow>
            Player_Score player = 0 \<and> Player_Name player = Join_Name req \<and>
            Player_GameID player = Game_ID game \<and>
            players w' = players w @ [player] \<and>
            Player_ID player \<notin> set (map Player_ID (players w)) \<and>
            map_option Players (getGameState (Game_Pin game) w') =
              Some ((case getGameState (Game_Pin game) w of None \<Rightarrow> [] | Some gs \<Rightarrow> Players gs)
                    @ [\<lparr>GamePlayer_ID = Player_ID player, GamePlayer_Name = Join_Name req,
                        GamePlayer_Score = 0\<rparr>]))
       \<and> (Game_Status game = ''finished'' \<longrightarrow> JoinGame req w = (Inl (CannotJoin ''finished''), w))"
proof -
  have succeeds: "(\<exists>player w'. JoinGame req w = (Inr player, w')) \<longleftrightarrow>
            ((Game_Status game = ''waiting'' \<or> Game_Status game = ''active'') \<and>
             \<not> (\<exists>p \<in> set (players w). Player_GameID p = Game_ID game \<and> Player_Name p = Join_Name req))"
    using found
    by (auto simp: JoinGame_def Let_def find_None_iff split: option.splits dest: find_Some_set)
  have effect: "Player_Score player = 0 \<and> Player_Name player = Join_Name req \<and>
            Player_GameID player = Game_ID game \<and>
            players w' = players w @ [player] \<and>
            Player_ID player \<notin> set (map Player_ID (players w)) \<and>
            map_option Players (getGameState (Game_Pin game) w') =
              Some ((case getGameState (Game_Pin game) w of None \<Rightarrow> [] | Some gs \<Rightarrow> Players gs)
                    @ [\<lparr>GamePlayer_ID = Player_ID player, GamePlayer_Name = Join_Name req,
                        GamePlayer_Score = 0\<rparr>])"
    if ok: "JoinGame req w = (Inr player, w')" for player w'
  proof -
    have "Player_ID player = nextID (map Player_ID (players w))"
      using ok found by (auto simp: JoinGame_def Let_def split: option.splits if_splits)
    then have fresh: "Player_ID player \<notin> set (map Player_ID (players w))"
      using nextID_fresh [of "map Player_ID (players w)"] by simp
    have "Player_Score player = 0 \<and> Player_Name player = Join_Name req \<and>
            Player_GameID player = Game_ID game \<and>
            players w' = players w @ [player] \<and>
            map_option Players (getGameState (Game_Pin game) w') =
              Some ((case getGameState (Game_Pin game) w of None \<Rightarrow> [] | Some gs \<Rightarrow> Players gs)
                    @ [\<lparr>GamePlayer_ID = Player_ID player, GamePlayer_Name = Join_Name req,
                        GamePlayer_Score = 0\<rparr>])"
      using ok found
      by (auto simp: JoinGame_def Let_def getGameState_def storeGameState_def update_conv'
                 toGamePlayer_def
               split: option.splits if_splits)
    with fresh show ?thesis by blast
  qed
  have finished: "JoinGame req w = (Inl (CannotJoin ''finished''), w)"
    if "Game_Status game = ''finished''"
    using that found by (simp add: JoinGame_def)
  show ?thesis
    using succeeds effect finished by blast
qed

theorem JoinGame_outcome_witness:
  "fst (JoinGame \<lparr>Join_Pin = ''A1B2C3'', Join_Name = ''Bob''\<rparr> (example_world ''active'')) =
     Inr \<lparr>Player_ID = 2, Player_GameID = 1, Player_Name = ''Bob'', Player_Score = 0\<rparr>
   \<and> players (snd (JoinGame \<lparr>Join_Pin = ''A1B2C3'', Join_Name = ''Bob''\<rparr> (example_world ''active''))) =
       [\<lparr>Player_ID = 1, Player_GameID = 1, Player_Name = ''Ann'', Player_Score = 0\<rparr>,
        \<lparr>Player_ID = 2, Player_GameID = 1, Player_Name = ''Bob'', Player_Score = 0\<rparr>]
   \<and> map_option Players
        (getGameState ''a1b2c3''
           (snd (JoinGame \<lparr>Join_Pin = ''A1B2C3'', Join_Name = ''Bob''\<rparr> (example_world ''active'')))) =
       Some [\<lparr>GamePlayer_ID = 1, GamePlayer_Name = ''Ann'', GamePlayer_Score = 0\<rparr>,
             \<lparr>GamePlayer_ID = 2, GamePlayer_Name = ''Bob'', GamePlayer_Score = 0\<rparr>]
   \<and> JoinGame \<lparr>Join_Pin = ''A1B2C3'', Join_Name = ''Bob''\<rparr> (example_world ''finished'') =
       (Inl (CannotJoin ''finished''), example_world ''finished'')"
proof -
  let ?req = "\<lparr>Join_Pin = ''A1B2C3'', Join_Name = ''Bob''\<rparr>"
  let ?g = "\<lambda>st. \<lparr>Game_ID = 1, Game_QuizID = 1, Game_Pin = ''a1b2c3'', Game_Status = st\<rparr>"
  let ?p = "\<lparr>Player_ID = 2, Player_GameID = 1, Player_Name = ''Bob'', Player_Score = 0\<rparr>"
  have f: "findGame (ToLower (Join_Pin ?req)) (example_world st) = Some (?g st)" for st
    by (simp add: findGame_def example_world_def ToLower_def lower_char_def)
  have r: "fst (JoinGame ?req (example_world ''active'')) = Inr ?p"
    by code_simp
  then have j: "JoinGame ?req (example_world ''active'') =
                  (Inr ?p, snd (JoinGame ?req (example_world ''active'')))"
    by (metis prod.collapse)
  have before: "players (example_world ''active'') =
                  [\<lparr>Player_ID = 1, Player_GameID = 1, Player_Name = ''Ann'', Player_Score = 0\<rparr>]"
    "map_option Players (getGameState ''a1b2c3'' (example_world ''active'')) =
       Some [\<lparr>GamePlayer_ID = 1, GamePlayer_Name = ''Ann'', GamePlayer_Score = 0\<rparr>]"
    by code_simp+
  show ?thesis
    using JoinGame_outcome [OF f [of "''active''"]] JoinGame_outcome [OF f [of "''finished''"]]
      j r before
    by (auto split: option.splits)
qed

lemma find_append_last:
  "find P xs = None \<Longrightarrow> P a \<Longrightarrow> find P (xs @ [a]) = Some a"
  by (induction xs) (auto split: if_splits)

lemma setGameStatus_fields [simp]:
  "quizzes (setGameStatus g st w) = quizzes w"
  "questions (setGameStatus g st w) = questions w"
  "options (setGameStatus g st w) = options w"
  "players (setGameStatus g st w) = players w"
  "answers (setGameStatus g st w) = answers w"
  "redis (setGameStatus g st w) = redis w"
  "hub (setGameStatus g st w) = hub w"
  "timers (setGameStatus g st w) = timers w"
  "trace (setGameStatus g st w) = trace w"
  by (simp_all add: setGameStatus_def)

subsection \<open>Submitting answers\<close>

lemma find_None_filter: "find P xs = None \<longleftrightarrow> filter P xs = []"
  by (induction xs) auto

text \<open>\<open>SubmitAnswer\<close> is its lookups followed by its writes.\<close>

lemma SubmitAnswer_phases:
  "SubmitAnswer gamePin playerID req hasHub w =
     (case SubmitAnswer_lookup gamePin playerID req w of
        Inl err \<Rightarrow> Some (Inl err, w)
      | Inr pending \<Rightarrow> SubmitAnswer_write gamePin playerID req hasHub pending w)"
proof (cases "findGame (ToLower (ToLower gamePin)) w")
  case None
  then show ?thesis by (simp add: SubmitAnswer_def SubmitAnswer_lookup_def)
next
  case game: (Some game)
  show ?thesis
  proof (cases "Game_Status game \<noteq> ''active''")
    case True
    with game show ?thesis by (simp add: SubmitAnswer_def SubmitAnswer_lookup_def)
  next
    case active: False
    show ?thesis
    proof (cases "find (\<lambda>a. Answer_GameID a = Game_ID game \<and> Answer_PlayerID a = playerID \<and>
                            Answer_QuestionID a = Submit_QuestionID req) (answers w)")
      case (Some existingAnswer)
      with game active show ?thesis by (simp add: SubmitAnswer_def SubmitAnswer_lookup_def)
    next
      case none: None
      show ?thesis
      proof (cases "find (\<lambda>q. Question_ID q = Submit_QuestionID req) (questions w)")
        case None
        with game active none show ?thesis by (simp add: SubmitAnswer_def SubmitAnswer_lookup_def)
      next
        case question: (Some question)
        show ?thesis
        proof (cases "find (\<lambda>opt. Option_ID opt = Submit_OptionID req) (options w)")
          case None
          with game active none question show ?thesis
            by (simp add: SubmitAnswer_def SubmitAnswer_lookup_def)
        next
          case option: (Some option)
          show ?thesis
          proof (cases "calculatePoints
                          (defaultTimeSpent (Submit_TimeSpent req) (Question_TimeLimit question))
                          (Question_TimeLimit question) (Option_IsCorrect option)")
            case (Inl panic)
            with game active none question option show ?thesis
              by (simp add: SubmitAnswer_def SubmitAnswer_lookup_def Let_def)
          next
            case (Inr points)
            with game active none question option show ?thesis
              by (simp add: SubmitAnswer_def SubmitAnswer_lookup_def SubmitAnswer_write_def Let_def)
          qed
        qed
      qed
    qed
  qed
qed

text \<open>What the writes do: one more record, and its points on the player's score.\<close>

lemma SubmitAnswer_write_effect:
  assumes "SubmitAnswer_write gamePin playerID req hasHub pending w = Some (r, w1)"
  shows "r = Inr () \<and>
         answers w1 = answers w @
           [\<lparr>Answer_ID = nextID (map Answer_ID (answers w)),
             Answer_GameID = Pending_gameID pending, Answer_PlayerID = playerID,
             Answer_QuestionID = Submit_QuestionID req, Answer_OptionID = Submit_OptionID req,
             Answer_IsCorrect = Pending_isCorrect pending,
             Answer_TimeSpent = Pending_timeSpent pending,
             Answer_Points = Pending_points pending\<rparr>] \<and>
         players w1 =
           map (\<lambda>p. if Player_ID p = playerID
                     then p\<lparr>Player_Score := Player_Score p + Pending_points pending\<rparr> else p)
             (players w) \<and>
         games w1 = games w \<and> mutex (hub w1) = mutex (hub w) \<and>
         (hasHub \<longrightarrow> mutex (hub w) = Unlocked)"
  using assms
  by (auto simp: SubmitAnswer_write_def Let_def BroadcastToGame_def storeGameState_def
        addPoints_def
      split: option.splits if_splits RWMutex.splits)

lemma SubmitAnswer_write_returns:
  assumes "hasHub \<longrightarrow> mutex (hub w) = Unlocked"
  shows "\<exists>w1. SubmitAnswer_write gamePin playerID req hasHub pending w = Some (Inr (), w1)"
  using assms
  by (auto simp: SubmitAnswer_write_def Let_def BroadcastToGame_def storeGameState_def
      split: option.splits)

text \<open>What a successful submission has done.\<close>

lemma SubmitAnswer_success:
  assumes "SubmitAnswer gamePin playerID req hasHub w = Some (Inr (), w1)"
  shows "\<exists>game question option a.
           findGame (ToLower gamePin) w = Some game \<and> Game_Status game = ''active'' \<and>
           answersOf (Game_ID game) playerID (Submit_QuestionID req) w = [] \<and>
           find (\<lambda>q. Question_ID q = Submit_QuestionID req) (questions w) = Some question \<and>
           find (\<lambda>opt. Option_ID opt = Submit_OptionID req) (options w) = Some option \<and>
           calculatePoints (defaultTimeSpent (Submit_TimeSpent req) (Question_TimeLimit question))
             (Question_TimeLimit question) (Option_IsCorrect option) = Inr (Answer_Points a) \<and>
           Answer_GameID a = Game_ID game \<and> Answer_PlayerID a = playerID \<and>
           Answer_QuestionID a = Submit_QuestionID req \<and>
           Answer_OptionID a = Submit_OptionID req \<and>
           answers w1 = answers w @ [a] \<and>
           players w1 =
             map (\<lambda>p. if Player_ID p = playerID
                       then p\<lparr>Player_Score := Player_Score p + Answer_Points a\<rparr> else p)
               (players w) \<and>
           games w1 = games w"
proof -
  from assms obtain game where g: "findGame (ToLower gamePin) w = Some game"
    by (auto simp: SubmitAnswer_def Let_def split: option.splits)
  from assms g have act: "Game_Status game = ''active''"
    by (auto simp: SubmitAnswer_def Let_def split: if_splits)
  from assms g act have none: "find (\<lambda>a. Answer_GameID a = Game_ID game \<and> Answer_PlayerID a = playerID \<and>
                Answer_QuestionID a = Submit_QuestionID req) (answers w) = None"
    by (auto simp: SubmitAnswer_def Let_def split: option.splits)
  from assms g act none obtain question where
    q: "find (\<lambda>q. Question_ID q = Submit_QuestionID req) (questions w) = Some question"
    by (auto simp: SubmitAnswer_def Let_def split: option.splits)
  from assms g act none q obtain option where
    opt: "find (\<lambda>opt. Option_ID opt = Submit_OptionID req) (options w) = Some option"
    by (auto simp: SubmitAnswer_def Let_def split: option.splits)
  from assms g act none q opt obtain points where
    pts: "calculatePoints (defaultTimeSpent (Submit_TimeSpent req) (Question_TimeLimit question))
        (Question_TimeLimit question) (Option_IsCorrect option) = Inr points"
    by (auto simp: SubmitAnswer_def Let_def split: sum.splits)
  let ?a = "\<lparr>Answer_ID = nextID (map Answer_ID (answers w)), Answer_GameID = Game_ID game,
          Answer_PlayerID = playerID, Answer_QuestionID = Submit_QuestionID req,
          Answer_OptionID = Submit_OptionID req, Answer_IsCorrect = Option_IsCorrect option,
          Answer_TimeSpent = defaultTimeSpent (Submit_TimeSpent req) (Question_TimeLimit question),
          Answer_Points = points\<rparr>"
  from assms g act none q opt pts
  have "answers w1 = answers w @ [?a] \<and>
      players w1 =
        map (\<lambda>p. if Player_ID p = playerID then p\<lparr>Player_Score := Player_Score p + points\<rparr> else p)
          (players w) \<and>
      games w1 = games w"
    by (auto simp: SubmitAnswer_def Let_def BroadcastToGame_def storeGameState_def addPoints_def
             split: option.splits if_splits RWMutex.splits)
  moreover have "answersOf (Game_ID game) playerID (Submit_QuestionID req) w = []"
    using none by (simp add: answersOf_def find_None_filter)
  ultimately show ?thesis
    using g act q opt pts
    by (intro exI [of _ game] exI [of _ question] exI [of _ option] exI [of _ ?a]) simp
qed

text \<open>In any state, a triple that has a record gets no second one from a call that starts
  in that state.\<close>

lemma SubmitAnswer_existing_record:
  assumes "findGame (ToLower gamePin) w = Some game"
      and "answersOf (Game_ID game) playerID (Submit_QuestionID req) w \<noteq> []"
  shows "SubmitAnswer gamePin playerID req hasHub w =
           Some (Inl (if Game_Status game \<noteq> ''active'' then GameNotActive
                      else AnswerAlreadySubmitted), w)"
proof -
  from assms(2) obtain a where
    "find (\<lambda>a. Answer_GameID a = Game_ID game \<and> Answer_PlayerID a = playerID \<and>
               Answer_QuestionID a = Submit_QuestionID req) (answers w) = Some a"
    by (cases "find (\<lambda>a. Answer_GameID a = Game_ID game \<and> Answer_PlayerID a = playerID \<and>
               Answer_QuestionID a = Submit_QuestionID req) (answers w)")
       (auto simp: answersOf_def find_None_filter)
  with assms(1) show ?thesis by (simp add: SubmitAnswer_def)
qed

text \<open>
  One call after the other: when a submission has returned with success, the triple had
  no record before and has exactly one after, whose points are those \<open>calculatePoints\<close>
  gives for the submitted option and time; the score of the player has grown by these
  points and no other score has changed; and a further submission for the same triple
  (the code in any letter case, any option, any time) that starts afterwards fails with
  "answer already submitted" and leaves the state, records and scores included, as it
  was.
\<close>

lemma SubmitAnswer_one_after_the_other:
  assumes first: "SubmitAnswer gamePin playerID req hasHub w = Some (Inr (), w1)"
      and pin: "ToLower gamePin' = ToLower gamePin"
      and qid: "Submit_QuestionID req' = Submit_QuestionID req"
  shows "\<exists>game question option a.
           findGame (ToLower gamePin) w = Some game \<and>
           find (\<lambda>q. Question_ID q = Submit_QuestionID req) (questions w) = Some question \<and>
           find (\<lambda>opt. Option_ID opt = Submit_OptionID req) (options w) = Some option \<and>
           calculatePoints (defaultTimeSpent (Submit_TimeSpent req) (Question_TimeLimit question))
             (Question_TimeLimit question) (Option_IsCorrect option) = Inr (Answer_Points a) \<and>
           answersOf (Game_ID game) playerID (Submit_QuestionID req) w = [] \<and>
           answersOf (Game_ID game) playerID (Submit_QuestionID req) w1 = [a] \<and>
           map (\<lambda>p. (Player_ID p, Player_Score p)) (players w1) =
             map (\<lambda>p. (Player_ID p,
                        if Player_ID p = playerID then Player_Score p + Answer_Points a
                        else Player_Score p)) (players w) \<and>
           SubmitAnswer gamePin' playerID req' hasHub' w1 = Some (Inl AnswerAlreadySubmitted, w1)"
proof -
  from SubmitAnswer_success [OF first] obtain game question option a where
    g: "findGame (ToLower gamePin) w = Some game" and act: "Game_Status game = ''active''" and
    none: "answersOf (Game_ID game) playerID (Submit_QuestionID req) w = []" and
    q: "find (\<lambda>q. Question_ID q = Submit_QuestionID req) (questions w) = Some question" and
    opt: "find (\<lambda>opt. Option_ID opt = Submit_OptionID req) (options w) = Some option" and
    pts: "calculatePoints (defaultTimeSpent (Submit_TimeSpent req) (Question_TimeLimit question))
             (Question_TimeLimit question) (Option_IsCorrect option) = Inr (Answer_Points a)" and
    a: "Answer_GameID a = Game_ID game" "Answer_PlayerID a = playerID"
       "Answer_QuestionID a = Submit_QuestionID req" and
    ans: "answers w1 = answers w @ [a]" and
    pl: "players w1 =
           map (\<lambda>p. if Player_ID p = playerID
                     then p\<lparr>Player_Score := Player_Score p + Answer_Points a\<rparr> else p)
             (players w)" and
    gm: "games w1 = games w"
    by blast
  have one: "answersOf (Game_ID game) playerID (Submit_QuestionID req) w1 = [a]"
    using none a ans by (simp add: answersOf_def)
  have scores: "map (\<lambda>p. (Player_ID p, Player_Score p)) (players w1) =
             map (\<lambda>p. (Player_ID p,
                        if Player_ID p = playerID then Player_Score p + Answer_Points a
                        else Player_Score p)) (players w)"
    unfolding pl by (simp add: comp_def)
  have g1: "findGame (ToLower (ToLower gamePin')) w1 = Some game"
    using g gm pin by (simp add: findGame_def)
  have "find (\<lambda>x. Answer_GameID x = Game_ID game \<and> Answer_PlayerID x = playerID \<and>
                  Answer_QuestionID x = Submit_QuestionID req') (answers w1) = Some a"
    using none a ans qid
    by (simp add: answersOf_def find_None_filter [symmetric] find_append_last)
  then have "SubmitAnswer gamePin' playerID req' hasHub' w1 = Some (Inl AnswerAlreadySubmitted, w1)"
    using g1 act by (simp add: SubmitAnswer_def)
  with g q opt pts none one scores show ?thesis by blast
qed

lemma SubmitAnswer_one_after_the_other_example:
  "map_option (\<lambda>(r, v). (r, map Answer_Points (answersOf 1 1 1 v),
                          map (\<lambda>p. (Player_ID p, Player_Score p)) (players v)))
     (SubmitAnswer ''a1b2c3'' 1 example_answer True (example_world ''active'')) =
     Some (Inr (), [133], [(1, 133)])
   \<and> SubmitAnswer ''A1B2C3'' 1 (example_answer\<lparr>Submit_OptionID := 2\<rparr>) False
        (snd (the (SubmitAnswer ''a1b2c3'' 1 example_answer True (example_world ''active'')))) =
      Some (Inl AnswerAlreadySubmitted,
            snd (the (SubmitAnswer ''a1b2c3'' 1 example_answer True (example_world ''active''))))"
proof -
  let ?first = "SubmitAnswer ''a1b2c3'' 1 example_answer True (example_world ''active'')"
  have r: "map_option (\<lambda>(r, v). (r, map Answer_Points (answersOf 1 1 1 v),
                          map (\<lambda>p. (Player_ID p, Player_Score p)) (players v))) ?first =
             Some (Inr (), [133], [(1, 133)])"
    by code_simp
  then have first: "?first = Some (Inr (), snd (the ?first))"
    by (cases ?first) auto
  have pin: "ToLower ''A1B2C3'' = ToLower ''a1b2c3''"
    by code_simp
  show ?thesis
    using SubmitAnswer_one_after_the_other
            [OF first pin, of "example_answer\<lparr>Submit_OptionID := 2\<rparr>" False] r
    by (auto simp: example_answer_def)
qed

text \<open>
  Two requests for one triple that overlap are both recorded: whenever a submission
  succeeds from a state, the same submission made twice, with both lookups before the
  first insert, succeeds twice and leaves two records of the triple.
\<close>

lemma SubmitAnswer_overlapping_both_recorded:
  assumes first: "SubmitAnswer gamePin playerID req hasHub w = Some (Inr (), w1)"
  shows "\<exists>game a b w2.
           findGame (ToLower gamePin) w = Some game \<and>
           SubmitAnswer_overlapping gamePin playerID req req hasHub w = Some (Inr (), Inr (), w2) \<and>
           answersOf (Game_ID game) playerID (Submit_QuestionID req) w2 = [a, b]"
proof -
  from SubmitAnswer_success [OF first] obtain game where
    g: "findGame (ToLower gamePin) w = Some game" and
    none: "answersOf (Game_ID game) playerID (Submit_QuestionID req) w = []"
    by blast
  from first obtain pending where
    look: "SubmitAnswer_lookup gamePin playerID req w = Inr pending" and
    wr1: "SubmitAnswer_write gamePin playerID req hasHub pending w = Some (Inr (), w1)"
    by (auto simp: SubmitAnswer_phases split: sum.splits)
  have gid: "Pending_gameID pending = Game_ID game"
    using look g by (auto simp: SubmitAnswer_lookup_def Let_def split: option.splits if_splits sum.splits)
  note e1 = SubmitAnswer_write_effect [OF wr1]
  from e1 have free1: "hasHub \<longrightarrow> mutex (hub w1) = Unlocked" by simp
  from SubmitAnswer_write_returns [OF free1] obtain w2 where
    wr2: "SubmitAnswer_write gamePin playerID req hasHub pending w1 = Some (Inr (), w2)"
    by blast
  note e2 = SubmitAnswer_write_effect [OF wr2]
  have both: "SubmitAnswer_overlapping gamePin playerID req req hasHub w = Some (Inr (), Inr (), w2)"
    using look wr1 wr2 by (simp add: SubmitAnswer_overlapping_def Let_def)
  have "\<exists>a b. answersOf (Game_ID game) playerID (Submit_QuestionID req) w2 = [a, b]"
    using none e1 e2 gid by (simp add: answersOf_def)
  with g both show ?thesis by blast
qed

text \<open>
  C4. At most one answer record per (session, participant, question), the second
  submission refused and the score that of the first submission alone. \<open>SubmitAnswer\<close>
  looks for a record of the triple and inserts afterwards, in two calls of the store that
  nothing holds together. In the example session two requests of player 1 for question 1
  overlap: both find no record, both are answered with success, the triple has two
  records of 133 points each, and the player's score is 266.
\<close>

theorem SubmitAnswer_overlapping_two_records:
  "answersOf 1 1 1 (example_world ''active'') = []
   \<and> map_option (\<lambda>(r1, r2, v). (r1, r2, map Answer_Points (answersOf 1 1 1 v),
                                map (\<lambda>p. (Player_ID p, Player_Score p)) (players v)))
       (SubmitAnswer_overlapping ''a1b2c3'' 1 example_answer example_answer True
          (example_world ''active'')) =
     Some (Inr (), Inr (), [133, 133], [(1, 266)])"
  by code_simp

text \<open>
  C5. A submission to a session whose status is not \<open>active\<close> fails with "game is not
  active" and changes nothing: no answer record, no points.
\<close>

theorem SubmitAnswer_inactive_rejected:
  assumes "findGame (ToLower gamePin) w = Some game" and "Game_Status game \<noteq> ''active''"
  shows "SubmitAnswer gamePin playerID req hasHub w = Some (Inl GameNotActive, w)"
  using assms by (simp add: SubmitAnswer_def)

theorem SubmitAnswer_inactive_rejected_witness:
  "findGame (ToLower ''a1b2c3'') (example_world ''waiting'') =
     Some \<lparr>Game_ID = 1, Game_QuizID = 1, Game_Pin = ''a1b2c3'', Game_Status = ''waiting''\<rparr>
   \<and> SubmitAnswer ''a1b2c3'' 1 example_answer True (example_world ''waiting'') =
       Some (Inl GameNotActive, example_world ''waiting'')"
proof -
  have g: "findGame (ToLower ''a1b2c3'') (example_world ''waiting'') =
     Some \<lparr>Game_ID = 1, Game_QuizID = 1, Game_Pin = ''a1b2c3'', Game_Status = ''waiting''\<rparr>"
    by code_simp
  show ?thesis
    using SubmitAnswer_inactive_rejected [OF g, of 1 example_answer True] g by simp
qed

text \<open>
  The submitted question is not compared with the open one: \<open>SubmitAnswer\<close> never looks at
  the snapshot's current question. In the example session question 1 (index 0) is open;
  an answer to question 2 is accepted, recorded and scored with 133 points.
\<close>

theorem SubmitAnswer_closed_question_counterexample:
  "map_option (\<lambda>gs. (CurrentQuestionIndex gs, map_option GameQuestion_ID (CurrentQuestion gs)))
     (getGameState ''a1b2c3'' (example_world ''active'')) = Some (0, Some 1)
   \<and> map_option (\<lambda>(r, w'). (r, map Answer_QuestionID (answers w'), map Answer_Points (answers w'),
                             map Player_Score (players w')))
       (SubmitAnswer ''a1b2c3'' 1
          \<lparr>Submit_PlayerID = 1, Submit_QuestionID = 2, Submit_OptionID = 4, Submit_TimeSpent = 10\<rparr>
          True (example_world ''active''))
     = Some (Inr (), [2], [133], [133])"
  by code_simp


subsection \<open>Creating a session\<close>

lemma length_generatePin: "length (generatePin b0 b1 b2) = 6"
  by (simp add: generatePin_def EncodeToString_def)

text \<open>
  C8. \<open>StartGame\<close> draws one six-digit code and does not retry. When the code is the pin of
  a game in the store, the unique index refuses the insert: \<open>StartGame\<close> fails and nothing
  is created. When it succeeds, the new game carries the drawn code, which no game had.
\<close>

theorem StartGame_one_code:
  assumes owned: "find (\<lambda>z. Quiz_ID z = quizID \<and> Quiz_UserID z = userID) (quizzes w) = Some quiz"
  shows "(generatePin b0 b1 b2 \<in> set (map Game_Pin (games w)) \<longrightarrow>
            StartGame userID quizID b0 b1 b2 w = (Inl DuplicateKey, w))
       \<and> (generatePin b0 b1 b2 \<notin> set (map Game_Pin (games w)) \<longrightarrow>
            (\<exists>game w'. StartGame userID quizID b0 b1 b2 w = (Inr game, w') \<and>
               Game_Pin game = generatePin b0 b1 b2 \<and> length (Game_Pin game) = 6 \<and>
               Game_Status game = ''waiting'' \<and> games w' = games w @ [game] \<and>
               Game_Pin game \<notin> set (map Game_Pin (games w))))"
  using owned by (simp add: StartGame_def Let_def length_generatePin)

theorem StartGame_one_code_witness:
  "generatePin 0xa1 0xb2 0xc4 \<notin> set (map Game_Pin (games (example_world ''active'')))
   \<and> map_prod (map_sum id Game_Pin) (\<lambda>w'. map Game_Pin (games w'))
         (StartGame 7 1 0xa1 0xb2 0xc4 (example_world ''active'')) =
       (Inr ''a1b2c4'', [''a1b2c3'', ''a1b2c4''])
   \<and> generatePin 0xa1 0xb2 0xc3 \<in> set (map Game_Pin (games (example_world ''active'')))
   \<and> StartGame 7 1 0xa1 0xb2 0xc3 (example_world ''active'') =
       (Inl DuplicateKey, example_world ''active'')"
proof -
  have q: "find (\<lambda>z. Quiz_ID z = 1 \<and> Quiz_UserID z = 7) (quizzes (example_world ''active'')) =
             Some \<lparr>Quiz_ID = 1, Quiz_UserID = 7\<rparr>"
    by code_simp
  have fresh: "generatePin 0xa1 0xb2 0xc4 = ''a1b2c4''"
    by code_simp
  have taken: "generatePin 0xa1 0xb2 0xc3 = ''a1b2c3''"
    by code_simp
  have old: "map Game_Pin (games (example_world ''active'')) = [''a1b2c3'']"
    by code_simp
  show ?thesis
    using StartGame_one_code [OF q, of "0xa1" "0xb2" "0xc4"]
      StartGame_one_code [OF q, of "0xa1" "0xb2" "0xc3"] fresh taken old
    by auto
qed

text \<open>
  A collision is not retried: with the bytes \<open>a1 b2 c3\<close>, the code of the example's game,
  \<open>StartGame\<close> returns the error of the store and no session.
\<close>

theorem StartGame_collision_counterexample:
  "generatePin 0xa1 0xb2 0xc3 = ''a1b2c3''
   \<and> StartGame 7 1 0xa1 0xb2 0xc3 (example_world ''active'') = (Inl DuplicateKey, example_world ''active'')"
  by code_simp


subsection \<open>Starting a question\<close>

lemma hideCorrect_fields [simp]:
  "quizzes (hideCorrect w) = quizzes w"
  "questions (hideCorrect w) = questions w"
  "games (hideCorrect w) = games w"
  "redis (hideCorrect w) = redis w"
  "hub (hideCorrect w) = hub w"
  "trace (hideCorrect w) = trace w"
  "timers (hideCorrect w) = timers w"
  by (simp_all add: hideCorrect_def)

lemma hideCorrect_lookups [simp]:
  "findGame p (hideCorrect w) = findGame p w"
  "gameQuestions g (hideCorrect w) = gameQuestions g w"
  "getGameState p (hideCorrect w) = getGameState p w"
  by (simp_all add: findGame_def gameQuestions_def getGameState_def split: option.splits)

lemma hideCorrect_options [simp]:
  "map toGameOption (questionOptions q (hideCorrect w)) = map toGameOption (questionOptions q w)"
  by (simp add: questionOptions_def hideCorrect_def toGameOption_def filter_map comp_def)

lemma storeGameState_hideCorrect:
  "storeGameState p st (hideCorrect w) = hideCorrect (storeGameState p st w)"
  by (simp add: storeGameState_def hideCorrect_def)

lemma BroadcastToGame_hideCorrect:
  "BroadcastToGame p t pl (hideCorrect w) = map_option hideCorrect (BroadcastToGame p t pl w)"
  by (simp add: BroadcastToGame_def hideCorrect_def Let_def split: RWMutex.splits)

lemma StartQuestion_hideCorrect:
  "startObservation (StartQuestion gamePin i hasHub (hideCorrect w)) =
   startObservation (StartQuestion gamePin i hasHub w)"
  by (simp add: StartQuestion_def startObservation_def Let_def storeGameState_hideCorrect
        BroadcastToGame_hideCorrect
      split: option.splits)

text \<open>
  C9. The \<open>question_start\<close> broadcast and the stored snapshot do not depend on which option
  is correct: two runs of \<open>StartQuestion\<close> on states that differ only in the \<open>is_correct\<close>
  flags of the options return the same result and leave the same Redis content, the same
  messages in the clients' queues, the same broadcasts and the same timers.
\<close>

theorem StartQuestion_hides_correct_option:
  assumes "hideCorrect w = hideCorrect w'"
  shows "startObservation (StartQuestion gamePin i hasHub w) =
         startObservation (StartQuestion gamePin i hasHub w')"
proof -
  have "startObservation (StartQuestion gamePin i hasHub w) =
        startObservation (StartQuestion gamePin i hasHub (hideCorrect w))"
    by (simp add: StartQuestion_hideCorrect)
  also have "\<dots> = startObservation (StartQuestion gamePin i hasHub (hideCorrect w'))"
    using assms by simp
  also have "\<dots> = startObservation (StartQuestion gamePin i hasHub w')"
    by (simp add: StartQuestion_hideCorrect)
  finally show ?thesis .
qed

theorem StartQuestion_hides_correct_option_witness:
  "hideCorrect (example_world ''active'') = hideCorrect (flipCorrect (example_world ''active''))
   \<and> options (example_world ''active'') \<noteq> options (flipCorrect (example_world ''active''))
   \<and> map_option fst (StartQuestion ''a1b2c3'' 1 True (example_world ''active'')) = Some (Inr ())
   \<and> startObservation (StartQuestion ''a1b2c3'' 1 True (example_world ''active'')) =
     startObservation (StartQuestion ''a1b2c3'' 1 True (flipCorrect (example_world ''active'')))"
proof -
  have h: "hideCorrect (example_world ''active'') = hideCorrect (flipCorrect (example_world ''active''))"
    by code_simp
  have d: "options (example_world ''active'') \<noteq> options (flipCorrect (example_world ''active''))"
    by code_simp
  have r: "map_option fst (StartQuestion ''a1b2c3'' 1 True (example_world ''active'')) = Some (Inr ())"
    by code_simp
  show ?thesis
    using StartQuestion_hides_correct_option [OF h, of "''a1b2c3''" 1 True] h d r by simp
qed


subsection \<open>The status of a session\<close>

lemma find_setStatus:
  "find (\<lambda>g. ToLower (Game_Pin g) = p) gs = Some game \<Longrightarrow>
   find (\<lambda>g. ToLower (Game_Pin g) = p)
     (map (\<lambda>g. if Game_ID g = Game_ID game then g\<lparr>Game_Status := st\<rparr> else g) gs) =
   Some (game\<lparr>Game_Status := st\<rparr>)"
  by (induction gs) (auto split: if_splits)

lemma findGame_setGameStatus:
  "findGame p w = Some game \<Longrightarrow>
   findGame p (setGameStatus (Game_ID game) st w) = Some (game\<lparr>Game_Status := st\<rparr>)"
  by (simp add: findGame_def setGameStatus_def find_setStatus)

lemma findGame_store [simp]: "findGame p (storeGameState q st w) = findGame p w"
  by (simp add: findGame_def)

text \<open>
  C3. A finished session refuses \<open>JoinGame\<close> and \<open>SubmitAnswer\<close>, and both leave the state as
  it is. \<open>StartQuiz\<close> has no check of the status: for the owner of the quiz it succeeds
  whatever the status is, and sets the status of the game and of the snapshot to
  \<open>active\<close>.
\<close>

theorem finished_session_calls:
  assumes found: "findGame (ToLower gamePin) w = Some game"
  shows "(Game_Status game = ''finished'' \<longrightarrow>
            JoinGame \<lparr>Join_Pin = gamePin, Join_Name = name\<rparr> w = (Inl (CannotJoin ''finished''), w) \<and>
            SubmitAnswer gamePin playerID req hasHub w = Some (Inl GameNotActive, w))
       \<and> (find (\<lambda>z. Quiz_ID z = Game_QuizID game \<and> Quiz_UserID z = userID) (quizzes w) \<noteq> None \<longrightarrow>
            (\<exists>started. fst (StartQuiz gamePin userID w) = Inr started) \<and>
            map_option Game_Status (findGame (ToLower gamePin) (snd (StartQuiz gamePin userID w))) =
              Some ''active'' \<and>
            map_option GameState_Status (getGameState gamePin (snd (StartQuiz gamePin userID w))) =
              Some ''active'')"
proof -
  have rejected: "JoinGame \<lparr>Join_Pin = gamePin, Join_Name = name\<rparr> w = (Inl (CannotJoin ''finished''), w) \<and>
            SubmitAnswer gamePin playerID req hasHub w = Some (Inl GameNotActive, w)"
    if "Game_Status game = ''finished''"
    using that found by (simp add: JoinGame_def SubmitAnswer_def)
  have restarted: "(\<exists>started. fst (StartQuiz gamePin userID w) = Inr started) \<and>
            map_option Game_Status (findGame (ToLower gamePin) (snd (StartQuiz gamePin userID w))) =
              Some ''active'' \<and>
            map_option GameState_Status (getGameState gamePin (snd (StartQuiz gamePin userID w))) =
              Some ''active''"
    if "find (\<lambda>z. Quiz_ID z = Game_QuizID game \<and> Quiz_UserID z = userID) (quizzes w) \<noteq> None"
    using that found
    by (auto simp: StartQuiz_def Let_def findGame_setGameStatus getGameState_store
             split: option.splits)
  show ?thesis using rejected restarted by blast
qed

theorem finished_session_calls_witness:
  "JoinGame \<lparr>Join_Pin = ''a1b2c3'', Join_Name = ''Bob''\<rparr> (example_world ''finished'') =
     (Inl (CannotJoin ''finished''), example_world ''finished'')
   \<and> SubmitAnswer ''a1b2c3'' 1 example_answer True (example_world ''finished'') =
     Some (Inl GameNotActive, example_world ''finished'')
   \<and> map_option Game_Status
       (findGame (ToLower ''a1b2c3'') (snd (StartQuiz ''a1b2c3'' 7 (example_world ''finished'')))) =
     Some ''active''"
proof -
  have g: "findGame (ToLower ''a1b2c3'') (example_world ''finished'') =
     Some \<lparr>Game_ID = 1, Game_QuizID = 1, Game_Pin = ''a1b2c3'', Game_Status = ''finished''\<rparr>"
    by code_simp
  have q: "find (\<lambda>z. Quiz_ID z = Game_QuizID \<lparr>Game_ID = 1, Game_QuizID = 1, Game_Pin = ''a1b2c3'', Game_Status = ''finished''\<rparr> \<and> Quiz_UserID z = 7)
             (quizzes (example_world ''finished'')) \<noteq> None"
    by code_simp
  show ?thesis
    using finished_session_calls [OF g, of "''Bob''" 1 example_answer True 7] q by simp
qed

text \<open>
  \<open>finished\<close> is not terminal for \<open>StartQuiz\<close>: on the finished example session the call of
  the owner succeeds, and the status is \<open>active\<close> again in the store and in the snapshot.
\<close>

theorem StartQuiz_reopens_finished_counterexample:
  "map Game_Status (games (example_world ''finished'')) = [''finished'']
   \<and> map_prod (map_sum id Game_ID)
        (\<lambda>w'. (map Game_Status (games w'), map (\<lambda>(k, gs). GameState_Status gs) (redis w')))
        (StartQuiz ''a1b2c3'' 7 (example_world ''finished'')) =
      (Inr 1, [''active''], [''active''])"
  by code_simp


subsection \<open>The current question index\<close>

lemma getGameState_ToLower [simp]: "getGameState (ToLower p) w = getGameState p w"
  by (simp add: getGameState_def)

lemma BroadcastToGame_getGameState:
  "BroadcastToGame p t pl w = Some w' \<Longrightarrow> getGameState q w' = getGameState q w"
  by (auto simp: BroadcastToGame_def getGameState_def Let_def split: RWMutex.splits)

lemma getGameState_timers [simp]: "getGameState q (w\<lparr>timers := ts\<rparr>) = getGameState q w"
  by (simp add: getGameState_def)

lemma getGameState_setGameStatus [simp]:
  "getGameState q (setGameStatus g st w) = getGameState q w"
  by (simp add: getGameState_def)

lemma StartQuestion_index:
  assumes "StartQuestion gamePin i hasHub w = Some (Inr (), w')"
  shows "\<exists>gs gs'. getGameState gamePin w = Some gs \<and> getGameState gamePin w' = Some gs' \<and>
           CurrentQuestionIndex gs' = i \<and> GameState_Status gs' = GameState_Status gs \<and> 0 \<le> i"
  using assms
  by (auto simp: StartQuestion_def Let_def getGameState_store
           split: option.splits if_splits dest!: BroadcastToGame_getGameState [where q = gamePin])

lemma StartGame_index:
  assumes "StartGame userID quizID b0 b1 b2 w = (Inr newGame, v)"
  shows "map_option CurrentQuestionIndex (getGameState (Game_Pin newGame) v) = Some (- 1)"
  using assms
  by (auto simp: StartGame_def Let_def getGameState_store split: option.splits if_splits)

lemma NextQuestion_index:
  assumes ok: "NextQuestion gamePin hasHub w = Some (Inr (), w')"
  shows "\<exists>gs game gs'.
           getGameState gamePin w = Some gs \<and> findGame (ToLower gamePin) w = Some game \<and>
           getGameState gamePin w' = Some gs' \<and>
           CurrentQuestionIndex gs' =
             (if CurrentQuestionIndex gs + 1 < int (length (gameQuestions game w))
              then CurrentQuestionIndex gs + 1 else int (length (gameQuestions game w))) \<and>
           (if CurrentQuestionIndex gs + 1 < int (length (gameQuestions game w))
            then GameState_Status gs' = GameState_Status gs else GameState_Status gs' = ''finished'')"
proof -
  from ok obtain gs where gs: "getGameState gamePin w = Some gs"
    by (auto simp: NextQuestion_def Let_def split: option.splits)
  from ok gs obtain game where g: "findGame (ToLower gamePin) w = Some game"
    by (auto simp: NextQuestion_def Let_def split: option.splits)
  let ?total = "int (length (gameQuestions game w))"
  show ?thesis
  proof (cases "CurrentQuestionIndex gs + 1 < ?total")
    case True
    with ok gs g have "StartQuestion (ToLower gamePin) (CurrentQuestionIndex gs + 1) hasHub w = Some (Inr (), w')"
      by (simp add: NextQuestion_def Let_def)
    from StartQuestion_index [OF this] gs
    obtain gs' where "getGameState gamePin w' = Some gs'"
      "CurrentQuestionIndex gs' = CurrentQuestionIndex gs + 1" "GameState_Status gs' = GameState_Status gs"
      by auto
    with gs g True show ?thesis by auto
  next
    case False
    with ok gs g have "\<exists>gs'. getGameState gamePin w' = Some gs' \<and> CurrentQuestionIndex gs' = ?total \<and>
        GameState_Status gs' = ''finished''"
      by (auto simp: NextQuestion_def Let_def getGameState_store
               split: if_splits option.splits dest!: BroadcastToGame_getGameState [where q = gamePin])
    with gs g False show ?thesis by auto
  qed
qed


text \<open>
  C6. The current question index is \<open>-1\<close> in the snapshot that \<open>StartGame\<close> writes. A
  successful \<open>NextQuestion\<close> moves it from \<open>i\<close> to \<open>i + 1\<close> when \<open>i + 1\<close> is below the number
  \<open>n\<close> of questions, and to \<open>n\<close>, with status \<open>finished\<close>, otherwise: it grows by exactly 1
  when \<open>i < n\<close> and does not decrease when \<open>i \<le> n\<close>. \<open>StartQuestion\<close> sets it to the index
  it is given.
\<close>

theorem CurrentQuestionIndex_steps:
  "(StartGame userID quizID b0 b1 b2 w = (Inr newGame, v) \<longrightarrow>
      map_option CurrentQuestionIndex (getGameState (Game_Pin newGame) v) = Some (- 1))
   \<and> (NextQuestion gamePin hasHub w = Some (Inr (), w1) \<longrightarrow>
        (\<exists>gs game gs'.
           getGameState gamePin w = Some gs \<and> findGame (ToLower gamePin) w = Some game \<and>
           getGameState gamePin w1 = Some gs' \<and>
           CurrentQuestionIndex gs' =
             (if CurrentQuestionIndex gs + 1 < int (length (gameQuestions game w))
              then CurrentQuestionIndex gs + 1 else int (length (gameQuestions game w))) \<and>
           (CurrentQuestionIndex gs < int (length (gameQuestions game w)) \<longrightarrow>
              CurrentQuestionIndex gs' = CurrentQuestionIndex gs + 1) \<and>
           (CurrentQuestionIndex gs \<le> int (length (gameQuestions game w)) \<longrightarrow>
              CurrentQuestionIndex gs \<le> CurrentQuestionIndex gs') \<and>
           (int (length (gameQuestions game w)) \<le> CurrentQuestionIndex gs + 1 \<longrightarrow>
              GameState_Status gs' = ''finished'')))
   \<and> (StartQuestion gamePin i hasHub w = Some (Inr (), w2) \<longrightarrow>
        map_option CurrentQuestionIndex (getGameState gamePin w2) = Some i)"
proof -
  have created: "map_option CurrentQuestionIndex (getGameState (Game_Pin newGame) v) = Some (- 1)"
    if "StartGame userID quizID b0 b1 b2 w = (Inr newGame, v)"
    using that by (rule StartGame_index)
  have advanced: "\<exists>gs game gs'.
           getGameState gamePin w = Some gs \<and> findGame (ToLower gamePin) w = Some game \<and>
           getGameState gamePin w1 = Some gs' \<and>
           CurrentQuestionIndex gs' =
             (if CurrentQuestionIndex gs + 1 < int (length (gameQuestions game w))
              then CurrentQuestionIndex gs + 1 else int (length (gameQuestions game w))) \<and>
           (CurrentQuestionIndex gs < int (length (gameQuestions game w)) \<longrightarrow>
              CurrentQuestionIndex gs' = CurrentQuestionIndex gs + 1) \<and>
           (CurrentQuestionIndex gs \<le> int (length (gameQuestions game w)) \<longrightarrow>
              CurrentQuestionIndex gs \<le> CurrentQuestionIndex gs') \<and>
           (int (length (gameQuestions game w)) \<le> CurrentQuestionIndex gs + 1 \<longrightarrow>
              GameState_Status gs' = ''finished'')"
    if ok: "NextQuestion gamePin hasHub w = Some (Inr (), w1)"
  proof -
    from NextQuestion_index [OF ok] obtain gs game gs' where
      a: "getGameState gamePin w = Some gs" "findGame (ToLower gamePin) w = Some game"
         "getGameState gamePin w1 = Some gs'" and
      b: "CurrentQuestionIndex gs' =
             (if CurrentQuestionIndex gs + 1 < int (length (gameQuestions game w))
              then CurrentQuestionIndex gs + 1 else int (length (gameQuestions game w)))" and
      c: "if CurrentQuestionIndex gs + 1 < int (length (gameQuestions game w))
            then GameState_Status gs' = GameState_Status gs else GameState_Status gs' = ''finished''"
      by blast
    have "CurrentQuestionIndex gs < int (length (gameQuestions game w)) \<longrightarrow>
              CurrentQuestionIndex gs' = CurrentQuestionIndex gs + 1"
      using b by (auto split: if_splits)
    moreover have "CurrentQuestionIndex gs \<le> int (length (gameQuestions game w)) \<longrightarrow>
              CurrentQuestionIndex gs \<le> CurrentQuestionIndex gs'"
      using b by (auto split: if_splits)
    moreover have "int (length (gameQuestions game w)) \<le> CurrentQuestionIndex gs + 1 \<longrightarrow>
              GameState_Status gs' = ''finished''"
      using c by (auto split: if_splits)
    ultimately show ?thesis using a b by blast
  qed
  have started: "map_option CurrentQuestionIndex (getGameState gamePin w2) = Some i"
    if "StartQuestion gamePin i hasHub w = Some (Inr (), w2)"
    using StartQuestion_index [OF that] by auto
  show ?thesis
    using created advanced started by blast
qed

theorem CurrentQuestionIndex_steps_witness:
  "map_option CurrentQuestionIndex
     (getGameState ''a1b2c4'' (snd (StartGame 7 1 0xa1 0xb2 0xc4 (example_world ''active'')))) = Some (- 1)
   \<and> map_option CurrentQuestionIndex (getGameState ''a1b2c3'' (example_world ''active'')) = Some 0
   \<and> map_option CurrentQuestionIndex
       (getGameState ''a1b2c3'' (snd (the (NextQuestion ''a1b2c3'' True (example_world ''active''))))) = Some 1
   \<and> map_option CurrentQuestionIndex
       (getGameState ''a1b2c3'' (snd (the (StartQuestion ''a1b2c3'' 1 True (example_world ''active''))))) = Some 1"
proof -
  let ?w = "example_world ''active''"
  let ?g = "\<lparr>Game_ID = 2, Game_QuizID = 1, Game_Pin = ''a1b2c4'', Game_Status = ''waiting''\<rparr>"
  have "fst (StartGame 7 1 0xa1 0xb2 0xc4 ?w) = Inr ?g"
    by code_simp
  then have sg: "StartGame 7 1 0xa1 0xb2 0xc4 ?w = (Inr ?g, snd (StartGame 7 1 0xa1 0xb2 0xc4 ?w))"
    by (metis prod.collapse)
  have "map_option fst (NextQuestion ''a1b2c3'' True ?w) = Some (Inr ())"
    by code_simp
  then have nq: "NextQuestion ''a1b2c3'' True ?w = Some (Inr (), snd (the (NextQuestion ''a1b2c3'' True ?w)))"
    by (cases "NextQuestion ''a1b2c3'' True ?w") auto
  have "map_option fst (StartQuestion ''a1b2c3'' 1 True ?w) = Some (Inr ())"
    by code_simp
  then have sq: "StartQuestion ''a1b2c3'' 1 True ?w = Some (Inr (), snd (the (StartQuestion ''a1b2c3'' 1 True ?w)))"
    by (cases "StartQuestion ''a1b2c3'' 1 True ?w") auto
  have cur: "map_option CurrentQuestionIndex (getGameState ''a1b2c3'' ?w) = Some 0"
    by code_simp
  have total: "map_option (\<lambda>g. length (gameQuestions g ?w)) (findGame (ToLower ''a1b2c3'') ?w) = Some 2"
    by code_simp
  have t: "(StartGame 7 1 0xa1 0xb2 0xc4 ?w = (Inr ?g, snd (StartGame 7 1 0xa1 0xb2 0xc4 ?w)) \<longrightarrow>
      map_option CurrentQuestionIndex (getGameState (Game_Pin ?g) (snd (StartGame 7 1 0xa1 0xb2 0xc4 ?w))) = Some (- 1))"
    using CurrentQuestionIndex_steps [of 7 1 "0xa1" "0xb2" "0xc4" ?w ?g "snd (StartGame 7 1 0xa1 0xb2 0xc4 ?w)"]
    by blast
  show ?thesis
    using t sg
      CurrentQuestionIndex_steps [of 7 1 "0xa1" "0xb2" "0xc4" ?w ?g "snd (StartGame 7 1 0xa1 0xb2 0xc4 ?w)"
        "''a1b2c3''" True "snd (the (NextQuestion ''a1b2c3'' True ?w))" 1
        "snd (the (StartQuestion ''a1b2c3'' 1 True ?w))"]
      nq sq cur total
    by auto
qed

text \<open>
  The index can decrease: the handler of the "start" request starts question 0 on every
  call. In the example session the owner's "next" request moves the index from 0 to 1,
  and a second "start" request puts it back to 0.
\<close>

theorem restart_resets_index_counterexample:
  "map_option fst (Handler_NextQuestion ''a1b2c3'' 7 (example_world ''active'')) = Some (Inr ())
   \<and> map_option CurrentQuestionIndex (getGameState ''a1b2c3'' example_after_next) = Some 1
   \<and> map_option fst (Handler_StartQuiz ''a1b2c3'' 7 example_after_next) = Some (Inr ())
   \<and> map_option CurrentQuestionIndex (getGameState ''a1b2c3'' example_after_restart) = Some 0"
  by code_simp


subsection \<open>Ending a question\<close>

lemma storeData_lookups:
  assumes "storeData w' = storeData w"
  shows "findGame p w' = findGame p w" "gameQuestions g w' = gameQuestions g w"
        "questionEndPayload g i w' = questionEndPayload g i w"
  using assms
  by (simp_all add: storeData_def findGame_def gameQuestions_def questionEndPayload_def
        questionOptions_def answerResult_def Let_def cong: option.case_cong)

lemma EndQuestion_once:
  assumes free: "mutex (hub w) = Unlocked"
      and found: "findGame (ToLower gamePin) w = Some game"
      and range: "0 \<le> i" "i < int (length (gameQuestions game w))"
  shows "\<exists>w1. EndQuestion gamePin True i w = Some (Inr (), w1) \<and>
           trace w1 = trace w @ [(ToLower gamePin, questionEndMessage game i w)] \<and>
           sessionData w1 = sessionData w \<and> timers w1 = timers w \<and> mutex (hub w1) = Unlocked"
  using assms
  by (simp add: EndQuestion_def BroadcastToGame_def Let_def questionEndMessage_def sessionData_def)

lemma timerTick_ok:
  assumes "mutex (hub w) = Unlocked"
  shows "\<exists>w'. timerTick p i t h w = Some w' \<and> mutex (hub w') = Unlocked \<and>
           storeData w' = storeData w"
  using assms
  by (auto simp: timerTick_def BroadcastToGame_def Let_def storeData_def split: option.splits)

lemma timerLoop_ok:
  "mutex (hub w) = Unlocked \<Longrightarrow>
   \<exists>w'. timerLoop p i t h w = Some w' \<and> mutex (hub w') = Unlocked \<and> storeData w' = storeData w"
proof (induction p i t h w rule: timerLoop.induct)
  case (1 p i t h w)
  show ?case
  proof (cases "t > 0")
    case False
    then show ?thesis using "1.prems" by simp
  next
    case True
    from timerTick_ok [OF "1.prems", of p i "t - 1" h] obtain w1 where
      tick: "timerTick p i (t - 1) h w = Some w1" and free1: "mutex (hub w1) = Unlocked" and
      same1: "storeData w1 = storeData w"
      by blast
    from "1.IH" [OF True tick free1] obtain w' where
      "timerLoop p i (t - 1) h w1 = Some w'" "mutex (hub w') = Unlocked"
      "storeData w' = storeData w1"
      by blast
    with True tick same1 show ?thesis by simp
  qed
qed

text \<open>
  C2. \<open>EndQuestion\<close> is not idempotent and mutates no session state. For a game that
  exists, an index in range and a hub whose lock is free, every call succeeds and
  broadcasts one \<open>question_end\<close> for that index, so two calls broadcast two, and the
  store and the Redis keys are afterwards as before. The timer cannot be cancelled: from
  any such state, whatever the status of the session, its run ends with the call of
  \<open>EndQuestion\<close>, whose broadcast is the last of its trace.
\<close>

theorem EndQuestion_not_idempotent:
  assumes free: "mutex (hub w) = Unlocked"
      and found: "findGame (ToLower gamePin) w = Some game"
      and range: "0 \<le> i" "i < int (length (gameQuestions game w))"
  shows "\<exists>w1 w2 w3.
           EndQuestion gamePin True i w = Some (Inr (), w1) \<and>
           EndQuestion gamePin True i w1 = Some (Inr (), w2) \<and>
           trace w2 = trace w @ [(ToLower gamePin, questionEndMessage game i w),
                                  (ToLower gamePin, questionEndMessage game i w)] \<and>
           sessionData w2 = sessionData w \<and>
           runQuestionTimer gamePin i timeLimit True w = Some w3 \<and>
           last (trace w3) = (ToLower gamePin, questionEndMessage game i w)"
proof -
  from EndQuestion_once [OF assms] obtain w1 where
    e1: "EndQuestion gamePin True i w = Some (Inr (), w1)" and
    t1: "trace w1 = trace w @ [(ToLower gamePin, questionEndMessage game i w)]" and
    s1: "sessionData w1 = sessionData w" and f1: "mutex (hub w1) = Unlocked"
    by blast
  have d1: "storeData w1 = storeData w"
    using s1 by (simp add: sessionData_def storeData_def)
  have found1: "findGame (ToLower gamePin) w1 = Some game"
    and range1: "i < int (length (gameQuestions game w1))"
    and msg1: "questionEndMessage game i w1 = questionEndMessage game i w"
    using found range storeData_lookups [OF d1] by (simp_all add: questionEndMessage_def)
  from EndQuestion_once [OF f1 found1 range(1) range1] obtain w2 where
    e2: "EndQuestion gamePin True i w1 = Some (Inr (), w2)" and
    t2: "trace w2 = trace w1 @ [(ToLower gamePin, questionEndMessage game i w1)]" and
    s2: "sessionData w2 = sessionData w1"
    by blast
  from timerLoop_ok [OF free, of "ToLower gamePin" i timeLimit] obtain v where
    loop: "timerLoop (ToLower gamePin) i timeLimit True w = Some v" and
    fv: "mutex (hub v) = Unlocked" and dv: "storeData v = storeData w"
    by blast
  have foundv: "findGame (ToLower (ToLower gamePin)) v = Some game"
    and rangev: "i < int (length (gameQuestions game v))"
    and msgv: "questionEndMessage game i v = questionEndMessage game i w"
    using found range storeData_lookups [OF dv] by (simp_all add: questionEndMessage_def)
  from EndQuestion_once [OF fv foundv range(1) rangev] obtain w3 where
    e3: "EndQuestion (ToLower gamePin) True i v = Some (Inr (), w3)" and
    t3: "trace w3 = trace v @ [(ToLower (ToLower gamePin), questionEndMessage game i v)]"
    by blast
  have run: "runQuestionTimer gamePin i timeLimit True w = Some w3"
    using loop e3 by (simp add: runQuestionTimer_def)
  show ?thesis
    using e1 e2 t1 t2 s1 s2 msg1 run t3 msgv by auto
qed

theorem EndQuestion_not_idempotent_witness:
  "map_option fst (EndQuestion ''a1b2c3'' True 0 (example_world ''active'')) = Some (Inr ())
   \<and> trace example_ended_twice =
       [(''a1b2c3'', questionEndMessage (hd (games (example_world ''active''))) 0 (example_world ''active'')),
        (''a1b2c3'', questionEndMessage (hd (games (example_world ''active''))) 0 (example_world ''active''))]
   \<and> sessionData example_ended_twice = sessionData (example_world ''active'')"
proof -
  let ?w = "example_world ''active''"
  have free: "mutex (hub ?w) = Unlocked"
    by code_simp
  have g: "findGame (ToLower ''a1b2c3'') ?w = Some (hd (games ?w))"
    by code_simp
  have r: "(0::int) < int (length (gameQuestions (hd (games ?w)) ?w))"
    by code_simp
  have t: "trace ?w = []" "ToLower ''a1b2c3'' = ''a1b2c3''"
    by code_simp+
  show ?thesis
    using EndQuestion_not_idempotent [OF free g _ r, of 0] t
    by (auto simp: example_ended_twice_def)
qed

text \<open>
  Two attempts to end question 0 of the example session give two \<open>question_end\<close>
  broadcasts for question 0. And the timer is not stopped by an advance: after the "start"
  and the "next" request on the waiting example session, question 1 is open and the timer
  of question 0 is still to run; its run broadcasts its ticks and, last, \<open>question_end\<close>
  for question 0, while the snapshot's index is 1.
\<close>

theorem EndQuestion_twice_counterexample:
  "broadcastKinds example_ended_twice = [(''question_end'', 0), (''question_end'', 0)]
   \<and> map_option CurrentQuestionIndex (getGameState ''a1b2c3'' example_advanced) = Some 1
   \<and> map Timer_questionIndex (timers example_advanced) = [0, 1]
   \<and> map_option (\<lambda>w. (drop 31 (broadcastKinds w),
                        map_option CurrentQuestionIndex (getGameState ''a1b2c3'' w)))
       (runSpawnedTimer example_advanced) =
     Some ([(''timer_update'', 0), (''question_end'', 0)], Some 1)"
  by code_simp

subsection \<open>The departure of the creator\<close>

text \<open>
  Whenever the unregister branch returns, it has broadcast nothing: the only broadcast it
  attempts is made while it holds the write lock.
\<close>

lemma UpdateGameStatus_hub: "hub (snd (UpdateGameStatus p st w)) = hub w"
  by (simp add: UpdateGameStatus_def Let_def split: option.splits)

lemma UpdateGameStatus_trace: "trace (snd (UpdateGameStatus p st w)) = trace w"
  by (simp add: UpdateGameStatus_def Let_def split: option.splits)

lemma Run_unregister_never_broadcasts:
  assumes ret: "Run_unregister hasGameService client w = Some w'"
  shows "trace w' = trace w \<and>
         clients (hub w') = filter (\<lambda>c. Client_ptr c \<noteq> Client_ptr client) (clients (hub w))"
proof -
  let ?rest = "filter (\<lambda>c. Client_ptr c \<noteq> Client_ptr client) (clients (hub w))"
  let ?w2 = "w\<lparr>hub := (hub w)\<lparr>mutex := WriteLocked, clients := ?rest\<rparr>\<rparr>"
  from ret have free: "mutex (hub w) = Unlocked"
    by (auto simp: Run_unregister_def split: RWMutex.splits)
  show ?thesis
  proof (cases "Client_ptr client \<in> set (map Client_ptr (clients (hub w)))")
    case False
    then have "?rest = clients (hub w)"
      by (auto simp: filter_id_conv intro: rev_image_eqI)
    with ret free False show ?thesis
      by (auto simp: Run_unregister_def Let_def unlockHub_def)
  next
    case True
    show ?thesis
    proof (cases "Client_playerID client = 0 \<and> hasGameService")
      case False
      with ret free True show ?thesis
        by (auto simp: Run_unregister_def Let_def unlockHub_def)
    next
      case creator: True
      obtain r w3 where u: "UpdateGameStatus (Client_gamePin client) ''finished'' ?w2 = (r, w3)"
        by (cases "UpdateGameStatus (Client_gamePin client) ''finished'' ?w2")
      have h3: "hub w3 = hub ?w2" and t3: "trace w3 = trace w"
        using UpdateGameStatus_hub [of "Client_gamePin client" "''finished''" ?w2]
          UpdateGameStatus_trace [of "Client_gamePin client" "''finished''" ?w2] u
        by simp_all
      show ?thesis
      proof (cases r)
        case (Inl err)
        with ret free True creator u have "w' = unlockHub w3"
          by (simp add: Run_unregister_def Let_def)
        with h3 t3 show ?thesis by (simp add: unlockHub_def)
      next
        case (Inr unit)
        have "BroadcastToGame (Client_gamePin client) ''game_end''
                (CreatorLeftPayload ''Quiz creator has left the game. The quiz has ended.''
                   ''creator_disconnected'') w3 = None"
          using h3 by (simp add: BroadcastToGame_def)
        with ret free True creator u Inr show ?thesis
          by (simp add: Run_unregister_def Let_def)
      qed
    qed
  qed
qed

text \<open>
  C7. When the creator's connection (player id 0) unregisters, the session is to be
  finished and one \<open>game_end\<close> with the reason \<open>creator_disconnected\<close> is to reach the
  remaining connections. In the example session the branch updates the status and then
  calls \<open>BroadcastToGame\<close> with the write lock held: the call waits for the read lock for
  ever, the branch never returns, and no \<open>game_end\<close> is delivered.
\<close>

theorem Run_unregister_creator_blocks:
  "Run_unregister True example_host (example_world ''active'') = None"
  by code_simp


end
